theory Spec2Isabelle
  imports
    Main
    "HOL-Library.Word"
    "HOL-Library.Char_ord"
    "HOL-Library.List_Lexorder"
begin

unbundle bit_operations_syntax

section \<open>Common conventions\<close>

text \<open>
  Byte buffers are lists of 8-bit words, C strings are \<open>string\<close>s (the characters before
  the terminating NUL).  A function that can stop the process (a failed \<open>tor_assert\<close> or
  \<open>trunnel_assert\<close>, a read through a NULL pointer, an integer division that traps) returns
  \<open>Inl\<close> of the crash; otherwise it returns \<open>Inr\<close> of what the C function returns or
  leaves behind.
\<close>

type_synonym byte = "8 word"

datatype crash = AssertionFailed | NullPointerDereference | DivisionFault

definition bytes_of_string :: "string \<Rightarrow> byte list" where
  "bytes_of_string s = map of_char s"

text \<open>\<open>memcpy(dst + off, src, length src)\<close> on a buffer held as a list.\<close>

definition memcpy :: "byte list \<Rightarrow> nat \<Rightarrow> byte list \<Rightarrow> byte list" where
  "memcpy dst off src = take off dst @ src @ drop (off + length src) dst"

definition set_uint8 :: "byte list \<Rightarrow> nat \<Rightarrow> byte \<Rightarrow> byte list" where
  "set_uint8 dst off v = dst[off := v]"

text \<open>\<open>strcmp\<close>: only the sign of the result is used by the callers.\<close>

definition strcmp :: "string \<Rightarrow> string \<Rightarrow> int" where
  "strcmp a b = (if a < b then - 1 else if a = b then 0 else 1)"

text \<open>
  \<open>smartlist_sort(sl, compare)\<close> orders the list by the comparison function.  The
  container library is not part of the sources; the model is an insertion sort driven by
  the comparison function.
\<close>

fun insort_cmp :: "('a \<Rightarrow> 'a \<Rightarrow> int) \<Rightarrow> 'a \<Rightarrow> 'a list \<Rightarrow> 'a list" where
  "insort_cmp cmp x [] = [x]"
| "insort_cmp cmp x (y # ys) =
     (if cmp x y \<le> 0 then x # y # ys else y # insort_cmp cmp x ys)"

definition smartlist_sort :: "('a \<Rightarrow> 'a \<Rightarrow> int) \<Rightarrow> 'a list \<Rightarrow> 'a list" where
  "smartlist_sort cmp xs = foldr (insort_cmp cmp) xs []"

section \<open>Shared random: data (shared\_random.h)\<close>

datatype digest_algorithm_t = DIGEST_SHA1 | DIGEST_SHA256 | DIGEST_SHA3_256

datatype sr_phase_t = SR_PHASE_COMMIT | SR_PHASE_REVEAL

datatype sr_srv_status_t = SR_SRV_STATUS_FRESH | SR_SRV_STATUS_NONFRESH

definition SR_PROTO_VERSION :: nat where
  "SR_PROTO_VERSION = 1"

definition SR_DIGEST_ALG :: digest_algorithm_t where
  "SR_DIGEST_ALG = DIGEST_SHA3_256"

definition SR_SRV_TOKEN :: string where
  "SR_SRV_TOKEN = ''shared-random''"

definition SR_SRV_TOKEN_LEN :: nat where
  "SR_SRV_TOKEN_LEN = length SR_SRV_TOKEN"

text \<open>
  Modelled from the spec: \<open>DIGEST256_LEN\<close>, a constant of crypto.h, which is not among
  the sources.  The spec's hashed reveal, random number and SRV value are 32 bytes, and
  the header says that \<open>8 + DIGEST256_LEN\<close> adds up to 40 bytes.
\<close>

definition DIGEST256_LEN :: nat where
  "DIGEST256_LEN = 32"

definition SR_RANDOM_NUMBER_LEN :: nat where
  "SR_RANDOM_NUMBER_LEN = 32"

definition SR_COMMIT_LEN :: nat where
  "SR_COMMIT_LEN = DIGEST256_LEN + 8"

definition SR_REVEAL_LEN :: nat where
  "SR_REVEAL_LEN = 8 + DIGEST256_LEN"

definition SR_SRV_MSG_LEN :: nat where
  "SR_SRV_MSG_LEN = SR_SRV_TOKEN_LEN + 1 + 1 + DIGEST256_LEN"

definition SR_COMMIT_BASE64_LEN :: nat where
  "SR_COMMIT_BASE64_LEN = ((SR_COMMIT_LEN - 1) div 3) * 4 + 4"

definition SR_REVEAL_BASE64_LEN :: nat where
  "SR_REVEAL_BASE64_LEN = ((SR_REVEAL_LEN - 1) div 3) * 4 + 4"

text \<open>
  \<open>sr_srv_t\<close>: the header declares \<open>num_reveals\<close> and \<open>value\<close>; the draft revision of
  shared-random.c (third document of shared\_random.h) also assigns \<open>status\<close>.  The record
  carries all three; \<open>tor_malloc_zero\<close> gives \<open>zero_srv\<close>.
\<close>

record sr_srv_t =
  num_reveals :: int
  srv_value :: "byte list"
  status :: sr_srv_status_t

definition zero_srv :: sr_srv_t where
  "zero_srv = \<lparr>num_reveals = 0, srv_value = replicate DIGEST256_LEN 0,
     status = SR_SRV_STATUS_FRESH\<rparr>"

text \<open>
  \<open>sr_commit_t\<close>, with the fields that the functions modelled here read or write
  (the header's fields, and \<open>auth_identity\<close> and \<open>auth_fingerprint\<close>, which both
  revisions of \<open>commit_new\<close> fill in).
\<close>

record sr_commit_t =
  alg :: digest_algorithm_t
  auth_identity :: "byte list"
  auth_fingerprint :: string
  rsa_identity_fpr :: string
  reveal_ts :: int
  hashed_reveal :: "byte list"
  encoded_commit :: string
  random_number :: "byte list"
  commit_ts :: int
  encoded_reveal :: string

section \<open>Shared random: computing the value (draft shared-random.c)\<close>

text \<open>
  The process-global \<open>sr_state\<close> of the draft revision, passed explicitly.  The
  \<open>commitments\<close> map (keyed by the authority's identity key) is the list of its entries
  in the order \<open>DIGEST256MAP_FOREACH\<close> visits them.
\<close>

record draft_sr_state_t =
  d_version :: nat
  d_phase :: sr_phase_t
  d_valid_until :: int
  commitments :: "(byte list \<times> sr_commit_t) list"
  d_previous_srv :: "sr_srv_t option"
  d_current_srv :: "sr_srv_t option"
  n_commit_rounds :: nat
  n_reveal_rounds :: nat
  n_protocol_runs :: nat

text \<open>
  The cryptographic primitives are outside the sources: \<open>crypto_digest256\<close> (which can
  report failure) and \<open>crypto_hmac_sha256 key msg\<close> are parameters.
\<close>

record sr_crypto =
  crypto_digest256 :: "string \<Rightarrow> digest_algorithm_t \<Rightarrow> byte list option"
  crypto_hmac_sha256 :: "byte list \<Rightarrow> byte list \<Rightarrow> byte list"

text \<open>
  Modelled from the spec: \<open>SR_SRV_HMAC_MSG_LEN\<close> and \<open>SR_SRV_MIN_REVEAL\<close>, two macros
  of the draft's header, which is not among the sources.  The spec's message
  \<open>"shared-random" || u8 || u8 || 32 bytes\<close> has \<open>SR_SRV_TOKEN_LEN + 1 + 1 + DIGEST256_LEN\<close>
  bytes (the value of \<open>SR_SRV_MSG_LEN\<close> in the header at hand), and the spec's protocol
  floor is 3 reveals (as \<open>generate_srv\<close> asserts).
\<close>

definition SR_SRV_HMAC_MSG_LEN :: nat where
  "SR_SRV_HMAC_MSG_LEN = SR_SRV_TOKEN_LEN + 1 + 1 + DIGEST256_LEN"

definition SR_SRV_MIN_REVEAL :: nat where
  "SR_SRV_MIN_REVEAL = 3"

definition UINT8_MAX :: nat where
  "UINT8_MAX = 255"

definition get_srv_element_from_commit :: "sr_commit_t \<Rightarrow> string" where
  "get_srv_element_from_commit commit = auth_fingerprint commit @ encoded_reveal commit"

definition generate_srv ::
  "sr_crypto \<Rightarrow> draft_sr_state_t \<Rightarrow> byte list \<Rightarrow> byte \<Rightarrow> crash + sr_srv_t" where
  "generate_srv X st hashed_reveals reveal_num =
     (if \<not> 3 \<le> unat reveal_num then Inl AssertionFailed
      else
        let msg0 = replicate SR_SRV_HMAC_MSG_LEN (0 :: byte);
            msg1 = memcpy msg0 0 (bytes_of_string SR_SRV_TOKEN);
            offset1 = SR_SRV_TOKEN_LEN;
            msg2 = set_uint8 msg1 offset1 reveal_num;
            offset2 = offset1 + 1;
            msg3 = set_uint8 msg2 offset2 (of_nat SR_PROTO_VERSION);
            offset3 = offset2 + 1;
            msg4 = (case d_previous_srv st of
                      None \<Rightarrow> msg3
                    | Some p \<Rightarrow> memcpy msg3 offset3 (take DIGEST256_LEN (srv_value p)))
        in Inr (zero_srv
                 \<lparr>srv_value := crypto_hmac_sha256 X (take DIGEST256_LEN hashed_reveals) msg4,
                  status := SR_SRV_STATUS_FRESH\<rparr>))"

definition generate_srv_disaster :: "sr_crypto \<Rightarrow> draft_sr_state_t \<Rightarrow> crash + sr_srv_t" where
  "generate_srv_disaster X st =
     (case d_previous_srv st of
        None \<Rightarrow> Inl NullPointerDereference
      | Some p \<Rightarrow>
          Inr (zero_srv
                \<lparr>srv_value := crypto_hmac_sha256 X (take DIGEST256_LEN (srv_value p))
                                 (bytes_of_string ''shared-random-disaster''),
                 status := SR_SRV_STATUS_NONFRESH\<rparr>))"

definition compare_commit_identity :: "sr_commit_t \<Rightarrow> sr_commit_t \<Rightarrow> int" where
  "compare_commit_identity a b = strcmp (auth_fingerprint a) (auth_fingerprint b)"

definition compute_shared_random_value ::
  "sr_crypto \<Rightarrow> draft_sr_state_t \<Rightarrow> crash + draft_sr_state_t" where
  "compute_shared_random_value X st =
     (if d_phase st \<noteq> SR_PHASE_REVEAL then Inl AssertionFailed
      else
        let reveal_num = length (commitments st) in
        if \<not> reveal_num < UINT8_MAX then Inl AssertionFailed
        else if reveal_num = 0 then Inr st
        else if reveal_num < SR_SRV_MIN_REVEAL then
          (case generate_srv_disaster X st of
             Inl e \<Rightarrow> Inl e
           | Inr srv \<Rightarrow> Inr (st\<lparr>d_current_srv := Some srv\<rparr>))
        else
          let commits = smartlist_sort compare_commit_identity (map snd (commitments st));
              chunks = map get_srv_element_from_commit commits;
              reveals = concat chunks
          in (case crypto_digest256 X reveals DIGEST_SHA256 of
                None \<Rightarrow> Inr st
              | Some hashed_reveals \<Rightarrow>
                  (case generate_srv X st hashed_reveals (of_nat reveal_num) of
                     Inl e \<Rightarrow> Inl e
                   | Inr srv \<Rightarrow> Inr (st\<lparr>d_current_srv := Some srv\<rparr>))))"

text \<open>
  The SRV of the specification, in the specification's words: \<open>C\<close> is the set of commits
  with a reveal; fewer than 3 give the disaster value, marked not fresh; otherwise the
  reveals are hashed with SHA3-256 in ascending order of fingerprint, and the value is the
  HMAC of the message under that hash, with \<open>num_reveals = |C|\<close>.
\<close>

definition spec_message :: "nat \<Rightarrow> sr_srv_t option \<Rightarrow> byte list" where
  "spec_message n prev =
     bytes_of_string ''shared-random'' @ [of_nat n] @ [of_nat SR_PROTO_VERSION] @
     (case prev of None \<Rightarrow> replicate 32 0 | Some p \<Rightarrow> srv_value p)"

definition spec_reveals :: "sr_commit_t list \<Rightarrow> string" where
  "spec_reveals C =
     concat (map (\<lambda>c. auth_fingerprint c @ encoded_reveal c) (sort_key auth_fingerprint C))"

definition spec_valid_reveal :: "sr_crypto \<Rightarrow> sr_commit_t \<Rightarrow> bool" where
  "spec_valid_reveal X c =
     (encoded_commit c \<noteq> [] \<and> encoded_reveal c \<noteq> [] \<and> commit_ts c = reveal_ts c \<and>
      crypto_digest256 X (encoded_reveal c) SR_DIGEST_ALG = Some (hashed_reveal c))"

definition spec_C :: "sr_crypto \<Rightarrow> draft_sr_state_t \<Rightarrow> sr_commit_t list" where
  "spec_C X st = filter (spec_valid_reveal X) (map snd (commitments st))"

definition spec_disaster_srv :: "sr_crypto \<Rightarrow> sr_srv_t \<Rightarrow> sr_srv_t" where
  "spec_disaster_srv X p =
     \<lparr>num_reveals = 0,
      srv_value = crypto_hmac_sha256 X (srv_value p) (bytes_of_string ''shared-random-disaster''),
      status = SR_SRV_STATUS_NONFRESH\<rparr>"

definition spec_srv :: "sr_crypto \<Rightarrow> draft_sr_state_t \<Rightarrow> sr_srv_t option" where
  "spec_srv X st =
     (let C = spec_C X st in
      if length C < 3 then map_option (spec_disaster_srv X) (d_previous_srv st)
      else
        map_option
          (\<lambda>h. \<lparr>num_reveals = int (length C),
                srv_value = crypto_hmac_sha256 X h (spec_message (length C) (d_previous_srv st)),
                status = SR_SRV_STATUS_FRESH\<rparr>)
          (crypto_digest256 X (spec_reveals C) DIGEST_SHA3_256))"

section \<open>Shared random: parsing vote and state lines (merged shared-random.c)\<close>

text \<open>
  What the shared random code calls outside the sources (time, the voting schedule, number
  and base16/base64 codecs, key encodings, the container and configuration libraries, the
  file system) is the record \<open>sr_ext\<close>; every function below takes it as its first
  argument.  \<open>tor_parse_long s base min max\<close> gives the value and the \<open>ok\<close> flag;
  \<open>base16_decode dest destlen src srclen\<close> gives the return code and what is then in
  \<open>dest\<close>; \<open>base64_decode destlen src\<close> gives the decoded bytes (their number is the
  return value) or \<open>None\<close> for a negative return; \<open>digestmap_key\<close> is what a digest map
  reads at a key pointer.
\<close>

datatype file_status_t = FN_ERROR | FN_NOENT | FN_FILE | FN_DIR | FN_EMPTY

record config_line_t =
  cl_key :: string
  cl_value :: "string option"

record sr_disk_state_t =
  magic :: nat
  Version :: int
  ValidUntil :: int
  ValidAfter :: int
  Commits :: "config_line_t list"
  SharedRandValues :: "config_line_t list"
  ExtraLines :: "config_line_t list"

record sr_ext =
  time_now :: int
  get_voting_interval :: int
  TestingV3AuthVotingStartOffset :: int
  voting_schedule_interval_starts :: "int \<Rightarrow> int"
  dirvote_get_start_of_next_interval :: "int \<Rightarrow> int \<Rightarrow> int \<Rightarrow> int"
  get_next_valid_after_time :: "int \<Rightarrow> int"
  tor_parse_long :: "string \<Rightarrow> int \<Rightarrow> int \<Rightarrow> int \<Rightarrow> int \<times> bool"
  base16_decode :: "byte list \<Rightarrow> nat \<Rightarrow> string \<Rightarrow> nat \<Rightarrow> int \<times> byte list"
  base16_encode :: "byte list \<Rightarrow> string"
  base64_decode :: "nat \<Rightarrow> string \<Rightarrow> byte list option"
  crypto_digest_algorithm_parse_name :: "string \<Rightarrow> digest_algorithm_t option"
  crypto_digest_algorithm_get_name :: "digest_algorithm_t \<Rightarrow> string"
  ed25519_public_from_base64 :: "string \<Rightarrow> byte list option"
  ed25519_public_to_base64 :: "byte list \<Rightarrow> string"
  FINGERPRINT_LEN :: nat
  digestmap_key :: "string \<Rightarrow> string"
  smartlist_split_string :: "string \<Rightarrow> string list"
  strcasecmp :: "string \<Rightarrow> string \<Rightarrow> int"
  format_d :: "int \<Rightarrow> string"
  file_status :: "string \<Rightarrow> file_status_t"
  read_file_to_str :: "string \<Rightarrow> string option"
  config_get_lines :: "string \<Rightarrow> config_line_t list option"
  config_assign :: "sr_disk_state_t \<Rightarrow> config_line_t list \<Rightarrow> string option \<times> sr_disk_state_t"
  config_init :: "sr_disk_state_t \<Rightarrow> sr_disk_state_t"
  config_dump :: "sr_disk_state_t \<Rightarrow> string"
  format_local_iso_time :: "int \<Rightarrow> string"
  get_datadir_fname :: "string \<Rightarrow> string"
  write_str_to_file :: "string \<Rightarrow> string \<Rightarrow> int"

definition INT32_MAX :: int where
  "INT32_MAX = 2147483647"

text \<open>
  Modelled from the spec: \<open>HEX_DIGEST256_LEN\<close>, a constant of crypto.h, which is not among
  the sources: the SRV lines carry the 32-byte value as hexadecimal (\<open>hex32\<close>).
\<close>

definition HEX_DIGEST256_LEN :: nat where
  "HEX_DIGEST256_LEN = 2 * DIGEST256_LEN"

text \<open>The conversion of a \<open>long\<close> to an \<open>int\<close>, and of an unsigned 64-bit value to \<open>time_t\<close>.\<close>

definition int_of_long :: "int \<Rightarrow> int" where
  "int_of_long v = sint (word_of_int v :: 32 word)"

definition get_uint64_be :: "byte list \<Rightarrow> 64 word" where
  "get_uint64_be bs = foldl (\<lambda>acc b. push_bit 8 acc OR ucast b) 0 (take 8 bs)"

definition time_of_uint64 :: "64 word \<Rightarrow> int" where
  "time_of_uint64 w = sint w"

definition sr_parse_srv :: "sr_ext \<Rightarrow> string list \<Rightarrow> sr_srv_t option" where
  "sr_parse_srv X args =
     (if length args < 2 then None
      else
        let (num, ok) = tor_parse_long X (args ! 0) 10 0 INT32_MAX in
        if \<not> ok then None
        else
          let srv = zero_srv\<lparr>num_reveals := int_of_long num\<rparr>;
              (r, dest) = base16_decode X (srv_value srv) DIGEST256_LEN (args ! 1) HEX_DIGEST256_LEN
          in Some (srv\<lparr>srv_value := dest\<rparr>))"

definition zero_commit :: sr_commit_t where
  "zero_commit =
     \<lparr>alg = DIGEST_SHA1, auth_identity = replicate 32 0, auth_fingerprint = [],
      rsa_identity_fpr = [], reveal_ts = 0, hashed_reveal = replicate DIGEST256_LEN 0,
      encoded_commit = [], random_number = replicate DIGEST256_LEN 0, commit_ts = 0,
      encoded_reveal = []\<rparr>"

definition commit_new :: "sr_ext \<Rightarrow> byte list \<Rightarrow> string \<Rightarrow> sr_commit_t" where
  "commit_new X identity rsa_fpr =
     zero_commit
       \<lparr>alg := SR_DIGEST_ALG,
        auth_identity := identity,
        auth_fingerprint := ed25519_public_to_base64 X identity,
        rsa_identity_fpr := take (FINGERPRINT_LEN X) rsa_fpr\<rparr>"

definition commit_decode :: "sr_ext \<Rightarrow> string \<Rightarrow> sr_commit_t \<Rightarrow> int \<times> sr_commit_t" where
  "commit_decode X encoded commit =
     (if length encoded > SR_COMMIT_BASE64_LEN then (- 1, commit)
      else
        case base64_decode X (SR_COMMIT_LEN + 2) encoded of
          None \<Rightarrow> (- 1, commit)
        | Some b64_decoded \<Rightarrow>
            if length b64_decoded < SR_COMMIT_LEN then (- 1, commit)
            else
              (0, commit
                 \<lparr>hashed_reveal := take DIGEST256_LEN b64_decoded,
                  commit_ts := time_of_uint64 (get_uint64_be (drop DIGEST256_LEN b64_decoded)),
                  encoded_commit := take (SR_COMMIT_BASE64_LEN + 1) encoded\<rparr>))"

definition reveal_decode :: "sr_ext \<Rightarrow> string \<Rightarrow> sr_commit_t \<Rightarrow> int \<times> sr_commit_t" where
  "reveal_decode X encoded commit =
     (if length encoded > SR_REVEAL_BASE64_LEN then (- 1, commit)
      else
        case base64_decode X (SR_REVEAL_LEN + 2) encoded of
          None \<Rightarrow> (- 1, commit)
        | Some b64_decoded \<Rightarrow>
            if length b64_decoded < SR_REVEAL_LEN then (- 1, commit)
            else
              (0, commit
                 \<lparr>reveal_ts := time_of_uint64 (get_uint64_be b64_decoded),
                  random_number := take DIGEST256_LEN (drop 8 b64_decoded),
                  encoded_reveal := take (SR_REVEAL_BASE64_LEN + 1) encoded\<rparr>))"

definition sr_parse_commit :: "sr_ext \<Rightarrow> string list \<Rightarrow> sr_commit_t option" where
  "sr_parse_commit X args =
     (if length args < 4 then None
      else if crypto_digest_algorithm_parse_name X (args ! 0) \<noteq> Some SR_DIGEST_ALG then None
      else
        case ed25519_public_from_base64 X (args ! 1) of
          None \<Rightarrow> None
        | Some pubkey \<Rightarrow>
            let commit = commit_new X pubkey (args ! 2);
                (r, commit) = commit_decode X (args ! 3) commit
            in if r < 0 then None
               else if length args > 4 then
                 (let (r, commit) = reveal_decode X (args ! 4) commit
                  in if r < 0 then None else Some commit)
               else Some commit)"

section \<open>Shared random: the state and its file (shared-random-state.c)\<close>

definition default_fname :: string where
  "default_fname = ''sr-state''"

definition dstate_commit_key :: string where
  "dstate_commit_key = ''Commit''"

definition dstate_prev_srv_key :: string where
  "dstate_prev_srv_key = ''SharedRandPreviousValue''"

definition dstate_cur_srv_key :: string where
  "dstate_cur_srv_key = ''SharedRandCurrentValue''"

definition SR_DISK_STATE_MAGIC :: nat where
  "SR_DISK_STATE_MAGIC = 0x98AB1254"

definition SHARED_RANDOM_N_ROUNDS :: int where
  "SHARED_RANDOM_N_ROUNDS = 12"

definition SHARED_RANDOM_N_PHASES :: int where
  "SHARED_RANDOM_N_PHASES = 2"

text \<open>
  \<open>sr_state_t\<close> is declared in shared-random-state.h, which is not among the sources; the
  record has the fields this file reads and writes.  The \<open>commits\<close> digest map is the
  list of its entries, under the keys the map reads, in the order \<open>DIGESTMAP_FOREACH\<close>
  visits them; a new key is put last.
\<close>

record sr_state_t =
  fname :: string
  version :: int
  phase :: sr_phase_t
  valid_after :: int
  valid_until :: int
  commits :: "(string \<times> sr_commit_t) list"
  previous_srv :: "sr_srv_t option"
  current_srv :: "sr_srv_t option"
  is_srv_fresh :: bool

text \<open>
  The two process globals \<open>sr_state\<close> and \<open>sr_disk_state\<close> (\<open>None\<close> is NULL), and the
  last file written by \<open>write_str_to_file\<close> (name and content).
\<close>

record sr_world =
  sr_state :: "sr_state_t option"
  sr_disk_state :: "sr_disk_state_t option"
  written :: "(string \<times> string) option"

datatype errno_t = EINVAL | ENOENT

datatype load_ret = Ret0 | RetNeg errno_t

text \<open>
  Integer arithmetic.  The values of the C types \<open>int\<close> (32 bits) and \<open>time_t\<close> (64 bits)
  are integers; the result of an addition, subtraction or multiplication is reduced to
  the type of the C expression by \<open>wrap_int\<close> or \<open>wrap_time_t\<close> (two's complement, what the
  compiled code does on overflow).  Division and remainder truncate towards zero; a
  division by zero, or of the least \<open>time_t\<close> by -1, stops the process (SIGFPE).
\<close>

definition wrap_int :: "int \<Rightarrow> int" where
  "wrap_int v = sint (word_of_int v :: 32 word)"

definition wrap_time_t :: "int \<Rightarrow> int" where
  "wrap_time_t v = sint (word_of_int v :: 64 word)"

definition division_traps :: "int \<Rightarrow> int \<Rightarrow> bool" where
  "division_traps a b = (b = 0 \<or> (a = - (2 ^ 63) \<and> b = - 1))"

definition c_div :: "int \<Rightarrow> int \<Rightarrow> int" where
  "c_div a b = sgn a * sgn b * (\<bar>a\<bar> div \<bar>b\<bar>)"

definition c_mod :: "int \<Rightarrow> int \<Rightarrow> int" where
  "c_mod a b = a - b * c_div a b"

definition get_start_time_of_current_round :: "sr_ext \<Rightarrow> int \<Rightarrow> int" where
  "get_start_time_of_current_round X now =
     (let voting_interval = get_voting_interval X;
          next_start = voting_schedule_interval_starts X now
      in dirvote_get_start_of_next_interval X
           (wrap_time_t (wrap_time_t (next_start - voting_interval) - 1))
           voting_interval (TestingV3AuthVotingStartOffset X))"

definition get_state_valid_until_time :: "sr_ext \<Rightarrow> int \<Rightarrow> crash + int" where
  "get_state_valid_until_time X now =
     (let total_rounds = wrap_int (SHARED_RANDOM_N_ROUNDS * SHARED_RANDOM_N_PHASES);
          voting_interval = get_voting_interval X;
          beginning_of_current_round = get_start_time_of_current_round X now
      in if division_traps now voting_interval then Inl DivisionFault
         else
           let current_round = wrap_int (c_mod (c_div now voting_interval) total_rounds);
               rounds_left = wrap_int (total_rounds - current_round);
               valid_until =
                 wrap_time_t (beginning_of_current_round + wrap_int (rounds_left * voting_interval))
           in Inr valid_until)"

definition get_sr_protocol_phase :: "sr_ext \<Rightarrow> int \<Rightarrow> crash + sr_phase_t" where
  "get_sr_protocol_phase X valid_after_time =
     (let total_periods = wrap_int (SHARED_RANDOM_N_ROUNDS * SHARED_RANDOM_N_PHASES)
      in if division_traps valid_after_time (get_voting_interval X) then Inl DivisionFault
         else
           let current_slot =
                 wrap_int (c_mod (c_div valid_after_time (get_voting_interval X)) total_periods)
           in if current_slot < SHARED_RANDOM_N_ROUNDS then Inr SR_PHASE_COMMIT
              else Inr SR_PHASE_REVEAL)"

text \<open>\<open>digestmap_set\<close> stores the value and returns the one it replaces, if any.\<close>

definition digestmap_set ::
  "(string \<times> 'v) list \<Rightarrow> string \<Rightarrow> 'v \<Rightarrow> (string \<times> 'v) list \<times> 'v option" where
  "digestmap_set m k v =
     (case map_of m k of
        None \<Rightarrow> (m @ [(k, v)], None)
      | Some old \<Rightarrow> (map (\<lambda>(k', v'). if k' = k then (k', v) else (k', v')) m, Some old))"

text \<open>\<open>commit_add_to_state(commit, state)\<close>; the state pointer may be NULL (\<open>None\<close>).\<close>

definition commit_add_to_state ::
  "sr_ext \<Rightarrow> sr_commit_t \<Rightarrow> sr_state_t option \<Rightarrow> crash + sr_state_t" where
  "commit_add_to_state X commit state_ptr =
     (case state_ptr of
        None \<Rightarrow> Inl AssertionFailed
      | Some state \<Rightarrow>
          let (m, saved_commit) =
                digestmap_set (commits state) (digestmap_key X (rsa_identity_fpr commit)) commit
          in if saved_commit \<noteq> None then Inl AssertionFailed
             else Inr (state\<lparr>commits := m\<rparr>))"

definition state_new :: "sr_ext \<Rightarrow> string option \<Rightarrow> int \<Rightarrow> crash + sr_state_t" where
  "state_new X name now =
     (let valid_after_time = get_next_valid_after_time X now in
      case get_sr_protocol_phase X valid_after_time of
        Inl e \<Rightarrow> Inl e
      | Inr new_phase \<Rightarrow>
          (case get_state_valid_until_time X valid_after_time of
             Inl e \<Rightarrow> Inl e
           | Inr new_valid_until \<Rightarrow>
               Inr \<lparr>fname = (case name of None \<Rightarrow> default_fname | Some f \<Rightarrow> f),
                    version = int SR_PROTO_VERSION,
                    phase = new_phase,
                    valid_after = 0,
                    valid_until = new_valid_until,
                    commits = [],
                    previous_srv = None,
                    current_srv = None,
                    is_srv_fresh = False\<rparr>))"

definition disk_state_new :: "sr_ext \<Rightarrow> int \<Rightarrow> crash + sr_disk_state_t" where
  "disk_state_new X now =
     (case get_state_valid_until_time X now of
        Inl e \<Rightarrow> Inl e
      | Inr new_valid_until \<Rightarrow>
          Inr (config_init X
                 \<lparr>magic = SR_DISK_STATE_MAGIC, Version = int SR_PROTO_VERSION,
                  ValidUntil = new_valid_until, ValidAfter = now,
                  Commits = [], SharedRandValues = [], ExtraLines = []\<rparr>))"

definition disk_state_validate :: "sr_ext \<Rightarrow> sr_disk_state_t \<Rightarrow> int" where
  "disk_state_validate X state =
     (if Version state > int SR_PROTO_VERSION then - 1
      else if ValidUntil state < time_now X then - 1
      else if ValidAfter state \<ge> ValidUntil state then - 1
      else 0)"

fun disk_state_parse_commits_lines ::
  "sr_ext \<Rightarrow> sr_state_t \<Rightarrow> config_line_t list \<Rightarrow> crash + (int \<times> sr_state_t)" where
  "disk_state_parse_commits_lines X state [] = Inr (0, state)"
| "disk_state_parse_commits_lines X state (line # rest) =
     (if strcasecmp X (cl_key line) dstate_commit_key \<noteq> 0 \<or> cl_value line = None then
        disk_state_parse_commits_lines X state rest
      else
        let args = smartlist_split_string X (the (cl_value line)) in
        if length args < 3 then Inr (- 1, state)
        else
          case sr_parse_commit X args of
            None \<Rightarrow> Inr (- 1, state)
          | Some commit \<Rightarrow>
              (case commit_add_to_state X commit (Some state) of
                 Inl e \<Rightarrow> Inl e
               | Inr state' \<Rightarrow> disk_state_parse_commits_lines X state' rest))"

definition disk_state_parse_commits ::
  "sr_ext \<Rightarrow> sr_state_t \<Rightarrow> sr_disk_state_t \<Rightarrow> crash + (int \<times> sr_state_t)" where
  "disk_state_parse_commits X state disk_state =
     disk_state_parse_commits_lines X state (Commits disk_state)"

definition disk_state_parse_srv :: "sr_ext \<Rightarrow> string \<Rightarrow> sr_srv_t \<Rightarrow> int \<times> sr_srv_t" where
  "disk_state_parse_srv X val dst =
     (let args = smartlist_split_string X val in
      if length args < 2 then (- 1, dst)
      else
        case sr_parse_srv X args of
          None \<Rightarrow> (- 1, dst)
        | Some srv \<Rightarrow> (0, dst\<lparr>num_reveals := num_reveals srv, srv_value := srv_value srv\<rparr>))"

fun disk_state_parse_sr_values_lines ::
  "sr_ext \<Rightarrow> sr_state_t \<Rightarrow> config_line_t list \<Rightarrow> int \<times> sr_state_t" where
  "disk_state_parse_sr_values_lines X state [] = (0, state)"
| "disk_state_parse_sr_values_lines X state (line # rest) =
     (case cl_value line of
        None \<Rightarrow> disk_state_parse_sr_values_lines X state rest
      | Some val \<Rightarrow>
          let (r, srv) = disk_state_parse_srv X val zero_srv in
          if r < 0 then (- 1, state)
          else if strcasecmp X (cl_key line) dstate_prev_srv_key = 0 then
            disk_state_parse_sr_values_lines X (state\<lparr>previous_srv := Some srv\<rparr>) rest
          else if strcasecmp X (cl_key line) dstate_cur_srv_key = 0 then
            disk_state_parse_sr_values_lines X (state\<lparr>current_srv := Some srv\<rparr>) rest
          else disk_state_parse_sr_values_lines X state rest)"

definition disk_state_parse_sr_values ::
  "sr_ext \<Rightarrow> sr_state_t \<Rightarrow> sr_disk_state_t \<Rightarrow> int \<times> sr_state_t" where
  "disk_state_parse_sr_values X state disk_state =
     disk_state_parse_sr_values_lines X state (SharedRandValues disk_state)"

definition disk_state_parse :: "sr_ext \<Rightarrow> sr_disk_state_t \<Rightarrow> crash + sr_state_t option" where
  "disk_state_parse X new_disk_state =
     (case state_new X (Some default_fname) (time_now X) of
        Inl e \<Rightarrow> Inl e
      | Inr new_state \<Rightarrow>
          let new_state = new_state
                \<lparr>version := Version new_disk_state,
                 valid_until := ValidUntil new_disk_state,
                 valid_after := ValidAfter new_disk_state\<rparr>;
              (r, new_state) = disk_state_parse_sr_values X new_state new_disk_state
          in if r < 0 then Inr None
             else
               case disk_state_parse_commits X new_state new_disk_state of
                 Inl e \<Rightarrow> Inl e
               | Inr (r, new_state) \<Rightarrow> if r < 0 then Inr None else Inr (Some new_state))"

definition disk_state_put_commit_line :: "sr_ext \<Rightarrow> sr_commit_t \<Rightarrow> string" where
  "disk_state_put_commit_line X commit =
     (let reveal_str =
            (if encoded_reveal commit \<noteq> [] then Some ('' '' @ encoded_reveal commit) else None)
      in crypto_digest_algorithm_get_name X (alg commit) @ '' '' @
         rsa_identity_fpr commit @ '' '' @ encoded_commit commit @
         (case reveal_str of None \<Rightarrow> [] | Some r \<Rightarrow> r))"

definition disk_state_put_srv_line :: "sr_ext \<Rightarrow> sr_srv_t \<Rightarrow> string" where
  "disk_state_put_srv_line X srv =
     format_d X (num_reveals srv) @ '' '' @ base16_encode X (srv_value srv)"

definition disk_state_update :: "sr_ext \<Rightarrow> sr_state_t \<Rightarrow> sr_disk_state_t" where
  "disk_state_update X state =
     \<lparr>magic = SR_DISK_STATE_MAGIC,
      Version = version state,
      ValidUntil = valid_until state,
      ValidAfter = valid_after state,
      Commits =
        map (\<lambda>(k, commit).
               \<lparr>cl_key = dstate_commit_key,
                cl_value = Some (disk_state_put_commit_line X commit)\<rparr>)
            (commits state),
      SharedRandValues =
        (case previous_srv state of
           None \<Rightarrow> []
         | Some srv \<Rightarrow>
             [\<lparr>cl_key = dstate_prev_srv_key, cl_value = Some (disk_state_put_srv_line X srv)\<rparr>]) @
        (case current_srv state of
           None \<Rightarrow> []
         | Some srv \<Rightarrow>
             [\<lparr>cl_key = dstate_cur_srv_key, cl_value = Some (disk_state_put_srv_line X srv)\<rparr>]),
      ExtraLines = []\<rparr>"

definition state_file_banner :: "string \<Rightarrow> string" where
  "state_file_banner tbuf =
     ''# Tor shared random state file last generated on '' @ tbuf @ '' local time'' @ [CHR 0x0A] @
     ''# Other times below are in UTC'' @ [CHR 0x0A] @
     ''# Please *do not* edit this file.'' @ [CHR 0x0A, CHR 0x0A]"

definition disk_state_save_to_disk :: "sr_ext \<Rightarrow> sr_world \<Rightarrow> crash + (int \<times> sr_world)" where
  "disk_state_save_to_disk X w =
     (case sr_disk_state w of
        None \<Rightarrow> Inr (0, w)
      | Some _ \<Rightarrow>
          (case sr_state w of
             None \<Rightarrow> Inl AssertionFailed
           | Some st \<Rightarrow>
               let ds = disk_state_update X st;
                   w = w\<lparr>sr_disk_state := Some ds\<rparr>;
                   content = state_file_banner (format_local_iso_time X (time_now X)) @
                             config_dump X ds;
                   name = get_datadir_fname X default_fname
               in if write_str_to_file X name content < 0 then Inr (- 1, w)
                  else Inr (0, w\<lparr>written := Some (name, content)\<rparr>)))"

definition disk_state_load_from_disk_impl ::
  "sr_ext \<Rightarrow> string \<Rightarrow> sr_world \<Rightarrow> crash + (load_ret \<times> sr_world)" where
  "disk_state_load_from_disk_impl X name w =
     (case file_status X name of
        FN_FILE \<Rightarrow>
          (case disk_state_new X (time_now X) of
             Inl e \<Rightarrow> Inl e
           | Inr disk_state \<Rightarrow>
               (case read_file_to_str X name of
                  None \<Rightarrow> Inr (RetNeg EINVAL, w)
                | Some content \<Rightarrow>
                    (case config_get_lines X content of
                       None \<Rightarrow> Inr (RetNeg EINVAL, w)
                     | Some lines \<Rightarrow>
                         let (errmsg, disk_state) = config_assign X disk_state lines in
                         if errmsg \<noteq> None then Inr (RetNeg EINVAL, w)
                         else if disk_state_validate X disk_state < 0 then
                           Inr (RetNeg EINVAL, w)
                         else
                           (case disk_state_parse X disk_state of
                              Inl e \<Rightarrow> Inl e
                            | Inr None \<Rightarrow> Inr (RetNeg EINVAL, w)
                            | Inr (Some parsed_state) \<Rightarrow>
                                Inr (Ret0, w\<lparr>sr_state := Some parsed_state,
                                             sr_disk_state := Some disk_state\<rparr>)))))
      | FN_NOENT \<Rightarrow> Inr (RetNeg ENOENT, w)
      | FN_EMPTY \<Rightarrow> Inr (RetNeg ENOENT, w)
      | FN_ERROR \<Rightarrow> Inr (RetNeg EINVAL, w)
      | FN_DIR \<Rightarrow> Inr (RetNeg EINVAL, w))"

definition disk_state_load_from_disk :: "sr_ext \<Rightarrow> sr_world \<Rightarrow> crash + (load_ret \<times> sr_world)" where
  "disk_state_load_from_disk X w =
     disk_state_load_from_disk_impl X (get_datadir_fname X default_fname) w"

definition sr_state_init :: "sr_ext \<Rightarrow> bool \<Rightarrow> bool \<Rightarrow> sr_world \<Rightarrow> crash + (int \<times> sr_world)" where
  "sr_state_init X save_to_disk read_from_disk w =
     (if sr_disk_state w \<noteq> None \<or> sr_state w \<noteq> None then Inl AssertionFailed
      else
        case (if read_from_disk then disk_state_load_from_disk X w
              else Inr (RetNeg ENOENT, w)) of
          Inl e \<Rightarrow> Inl e
        | Inr (Ret0, w) \<Rightarrow> Inr (0, w)
        | Inr (RetNeg _, w) \<Rightarrow>
            (case state_new X (Some default_fname) (time_now X) of
               Inl e \<Rightarrow> Inl e
             | Inr new_state \<Rightarrow>
                 (case disk_state_new X (time_now X) of
                    Inl e \<Rightarrow> Inl e
                  | Inr new_disk_state \<Rightarrow>
                      let w = w\<lparr>sr_state := Some new_state,
                                 sr_disk_state := Some new_disk_state\<rparr>
                      in if save_to_disk then
                           (case disk_state_save_to_disk X w of
                              Inl e \<Rightarrow> Inl e
                            | Inr (r, w) \<Rightarrow> if r < 0 then Inr (- 1, w) else Inr (0, w))
                         else Inr (0, w))))"

text \<open>
  \<open>state_query\<close>, the single entry point to the state.  The \<open>void *\<close> argument is the
  value the accessors pass for each object type (\<open>NoData\<close> is NULL), the result what
  \<open>*out\<close> then points to; \<open>PhaseOut\<close> holds what is read through \<open>&sr_state->phase\<close>, which
  is nothing when \<open>sr_state\<close> is NULL.  Data of another kind than the object type takes is
  outside the C types of the accessors; the model stops there as on a failed assertion.
\<close>

datatype sr_state_action_t =
  SR_STATE_ACTION_GET | SR_STATE_ACTION_PUT | SR_STATE_ACTION_DEL_ALL | SR_STATE_ACTION_SAVE

datatype sr_state_object_t =
  SR_STATE_OBJ_COMMIT | SR_STATE_OBJ_COMMITS | SR_STATE_OBJ_CURSRV | SR_STATE_OBJ_PREVSRV
  | SR_STATE_OBJ_PHASE | SR_STATE_OBJ_VALID_AFTER

datatype query_data =
  NoData | FprData string | CommitData sr_commit_t | SrvData sr_srv_t | TimeData int

datatype query_out =
  NoOut | CommitOut "sr_commit_t option" | CommitsOut "(string \<times> sr_commit_t) list"
  | SrvOut "sr_srv_t option" | PhaseOut "sr_phase_t option"

definition state_query_get_commit ::
  "sr_ext \<Rightarrow> query_data \<Rightarrow> sr_world \<Rightarrow> crash + sr_commit_t option" where
  "state_query_get_commit X data w =
     (case data of
        FprData rsa_fpr \<Rightarrow>
          (case sr_state w of
             None \<Rightarrow> Inl NullPointerDereference
           | Some st \<Rightarrow> Inr (map_of (commits st) (digestmap_key X rsa_fpr)))
      | _ \<Rightarrow> Inl AssertionFailed)"

definition state_query_get ::
  "sr_ext \<Rightarrow> sr_state_object_t \<Rightarrow> query_data \<Rightarrow> sr_world \<Rightarrow> crash + query_out" where
  "state_query_get X obj_type data w =
     (case obj_type of
        SR_STATE_OBJ_COMMIT \<Rightarrow> map_sum id CommitOut (state_query_get_commit X data w)
      | SR_STATE_OBJ_COMMITS \<Rightarrow>
          (case sr_state w of
             None \<Rightarrow> Inl NullPointerDereference
           | Some st \<Rightarrow> Inr (CommitsOut (commits st)))
      | SR_STATE_OBJ_CURSRV \<Rightarrow>
          (case sr_state w of
             None \<Rightarrow> Inl NullPointerDereference
           | Some st \<Rightarrow> Inr (SrvOut (current_srv st)))
      | SR_STATE_OBJ_PREVSRV \<Rightarrow>
          (case sr_state w of
             None \<Rightarrow> Inl NullPointerDereference
           | Some st \<Rightarrow> Inr (SrvOut (previous_srv st)))
      | SR_STATE_OBJ_PHASE \<Rightarrow> Inr (PhaseOut (map_option phase (sr_state w)))
      | SR_STATE_OBJ_VALID_AFTER \<Rightarrow> Inl AssertionFailed)"

definition state_query_put ::
  "sr_ext \<Rightarrow> sr_state_object_t \<Rightarrow> query_data \<Rightarrow> sr_world \<Rightarrow> crash + sr_world" where
  "state_query_put X obj_type data w =
     (case obj_type of
        SR_STATE_OBJ_COMMIT \<Rightarrow>
          (case data of
             CommitData commit \<Rightarrow>
               map_sum id (\<lambda>st. w\<lparr>sr_state := Some st\<rparr>)
                 (commit_add_to_state X commit (sr_state w))
           | _ \<Rightarrow> Inl AssertionFailed)
      | SR_STATE_OBJ_CURSRV \<Rightarrow>
          (case sr_state w of
             None \<Rightarrow> Inl NullPointerDereference
           | Some st \<Rightarrow>
               (case data of
                  SrvData srv \<Rightarrow> Inr (w\<lparr>sr_state := Some (st\<lparr>current_srv := Some srv\<rparr>)\<rparr>)
                | NoData \<Rightarrow> Inr (w\<lparr>sr_state := Some (st\<lparr>current_srv := None\<rparr>)\<rparr>)
                | _ \<Rightarrow> Inl AssertionFailed))
      | SR_STATE_OBJ_PREVSRV \<Rightarrow>
          (case sr_state w of
             None \<Rightarrow> Inl NullPointerDereference
           | Some st \<Rightarrow>
               (case data of
                  SrvData srv \<Rightarrow> Inr (w\<lparr>sr_state := Some (st\<lparr>previous_srv := Some srv\<rparr>)\<rparr>)
                | NoData \<Rightarrow> Inr (w\<lparr>sr_state := Some (st\<lparr>previous_srv := None\<rparr>)\<rparr>)
                | _ \<Rightarrow> Inl AssertionFailed))
      | SR_STATE_OBJ_VALID_AFTER \<Rightarrow>
          (case data of
             TimeData t \<Rightarrow>
               (case sr_state w of
                  None \<Rightarrow> Inl NullPointerDereference
                | Some st \<Rightarrow> Inr (w\<lparr>sr_state := Some (st\<lparr>valid_after := t\<rparr>)\<rparr>))
           | NoData \<Rightarrow> Inl NullPointerDereference
           | _ \<Rightarrow> Inl AssertionFailed)
      | SR_STATE_OBJ_PHASE \<Rightarrow> Inl AssertionFailed
      | SR_STATE_OBJ_COMMITS \<Rightarrow> Inl AssertionFailed)"

definition state_query_del_all :: "sr_state_object_t \<Rightarrow> sr_world \<Rightarrow> crash + sr_world" where
  "state_query_del_all obj_type w =
     (case obj_type of
        SR_STATE_OBJ_COMMIT \<Rightarrow>
          (case sr_state w of
             None \<Rightarrow> Inl NullPointerDereference
           | Some st \<Rightarrow> Inr (w\<lparr>sr_state := Some (st\<lparr>commits := []\<rparr>)\<rparr>))
      | _ \<Rightarrow> Inl AssertionFailed)"

definition state_query ::
  "sr_ext \<Rightarrow> sr_state_action_t \<Rightarrow> sr_state_object_t \<Rightarrow> query_data \<Rightarrow> sr_world \<Rightarrow>
     crash + (query_out \<times> sr_world)" where
  "state_query X action obj_type data w =
     (case action of
        SR_STATE_ACTION_GET \<Rightarrow> map_sum id (\<lambda>out. (out, w)) (state_query_get X obj_type data w)
      | SR_STATE_ACTION_PUT \<Rightarrow>
          (case state_query_put X obj_type data w of
             Inl e \<Rightarrow> Inl e
           | Inr w' \<Rightarrow> map_sum id (\<lambda>(r, w''). (NoOut, w'')) (disk_state_save_to_disk X w'))
      | SR_STATE_ACTION_DEL_ALL \<Rightarrow>
          (case state_query_del_all obj_type w of
             Inl e \<Rightarrow> Inl e
           | Inr w' \<Rightarrow> map_sum id (\<lambda>(r, w''). (NoOut, w'')) (disk_state_save_to_disk X w'))
      | SR_STATE_ACTION_SAVE \<Rightarrow>
          map_sum id (\<lambda>(r, w''). (NoOut, w'')) (disk_state_save_to_disk X w))"

definition sr_state_get_commit :: "sr_ext \<Rightarrow> string \<Rightarrow> sr_world \<Rightarrow> crash + sr_commit_t option" where
  "sr_state_get_commit X rsa_fpr w =
     (case state_query X SR_STATE_ACTION_GET SR_STATE_OBJ_COMMIT (FprData rsa_fpr) w of
        Inl e \<Rightarrow> Inl e
      | Inr (CommitOut c, _) \<Rightarrow> Inr c
      | Inr _ \<Rightarrow> Inl AssertionFailed)"

definition sr_state_add_commit :: "sr_ext \<Rightarrow> sr_commit_t \<Rightarrow> sr_world \<Rightarrow> crash + sr_world" where
  "sr_state_add_commit X commit w =
     map_sum id snd (state_query X SR_STATE_ACTION_PUT SR_STATE_OBJ_COMMIT (CommitData commit) w)"

text \<open>
  The structural checks of the loader on the lines of a state file, written out.  An SRV
  line with a value fails when it has fewer than two tokens or when its first token is
  not an integer between 0 and \<open>INT32_MAX\<close>; its second token, the value, is not checked.
  A Commit line that is not skipped fails when it has fewer than four tokens, when its
  algorithm is not the supported one, when its identity key does not decode, when its
  commit blob is too long, does not decode or decodes to too few bytes, or when it has a
  fifth token, the reveal blob, that is too long, does not decode or decodes to too few
  bytes.  A Commit line that is stored is stored under the key that the digest map reads
  at its third token, the RSA fingerprint.
\<close>

definition srv_line_fails :: "sr_ext \<Rightarrow> config_line_t \<Rightarrow> bool" where
  "srv_line_fails X line =
     (case cl_value line of
        None \<Rightarrow> False
      | Some val \<Rightarrow>
          let args = smartlist_split_string X val
          in length args < 2 \<or> \<not> snd (tor_parse_long X (args ! 0) 10 0 INT32_MAX))"

definition commit_line_skipped :: "sr_ext \<Rightarrow> config_line_t \<Rightarrow> bool" where
  "commit_line_skipped X line =
     (strcasecmp X (cl_key line) dstate_commit_key \<noteq> 0 \<or> cl_value line = None)"

definition commit_blob_malformed :: "sr_ext \<Rightarrow> string \<Rightarrow> bool" where
  "commit_blob_malformed X encoded =
     (SR_COMMIT_BASE64_LEN < length encoded \<or>
      (case base64_decode X (SR_COMMIT_LEN + 2) encoded of
         None \<Rightarrow> True
       | Some decoded \<Rightarrow> length decoded < SR_COMMIT_LEN))"

definition reveal_blob_malformed :: "sr_ext \<Rightarrow> string \<Rightarrow> bool" where
  "reveal_blob_malformed X encoded =
     (SR_REVEAL_BASE64_LEN < length encoded \<or>
      (case base64_decode X (SR_REVEAL_LEN + 2) encoded of
         None \<Rightarrow> True
       | Some decoded \<Rightarrow> length decoded < SR_REVEAL_LEN))"

definition commit_line_fails :: "sr_ext \<Rightarrow> config_line_t \<Rightarrow> bool" where
  "commit_line_fails X line =
     (\<not> commit_line_skipped X line \<and>
      (let args = smartlist_split_string X (the (cl_value line))
       in length args < 4 \<or>
          crypto_digest_algorithm_parse_name X (args ! 0) \<noteq> Some SR_DIGEST_ALG \<or>
          ed25519_public_from_base64 X (args ! 1) = None \<or>
          commit_blob_malformed X (args ! 3) \<or>
          (4 < length args \<and> reveal_blob_malformed X (args ! 4))))"

definition commit_line_key :: "sr_ext \<Rightarrow> config_line_t \<Rightarrow> string" where
  "commit_line_key X line =
     digestmap_key X
       (take (FINGERPRINT_LEN X) (smartlist_split_string X (the (cl_value line)) ! 2))"

text \<open>
  The Commit lines are rejected when one of them fails and the lines before the first
  that fails, as far as they are not skipped, are stored under keys that differ.
\<close>

definition commit_lines_rejected :: "sr_ext \<Rightarrow> config_line_t list \<Rightarrow> bool" where
  "commit_lines_rejected X lines =
     (let before = takeWhile (\<lambda>l. \<not> commit_line_fails X l) lines
      in length before < length lines \<and>
         distinct (map (commit_line_key X) (filter (\<lambda>l. \<not> commit_line_skipped X l) before)))"

text \<open>The disk state that the loader gets from the file, when the file can be read.\<close>

definition disk_state_of_file :: "sr_ext \<Rightarrow> string \<Rightarrow> sr_disk_state_t option" where
  "disk_state_of_file X name =
     (case file_status X name of
        FN_FILE \<Rightarrow>
          (case disk_state_new X (time_now X) of
             Inl e \<Rightarrow> None
           | Inr disk_state \<Rightarrow>
               (case read_file_to_str X name of
                  None \<Rightarrow> None
                | Some content \<Rightarrow>
                    (case config_get_lines X content of
                       None \<Rightarrow> None
                     | Some lines \<Rightarrow>
                         (case config_assign X disk_state lines of
                            (None, ds) \<Rightarrow> Some ds
                          | (Some errmsg, ds) \<Rightarrow> None))))
      | _ \<Rightarrow> None)"

text \<open>
  The rejection conditions of the loader on a disk state: the three tests of
  \<open>disk_state_validate\<close>, an SRV line that fails, or Commit lines that are rejected.
\<close>

definition state_file_rejected :: "sr_ext \<Rightarrow> sr_disk_state_t \<Rightarrow> bool" where
  "state_file_rejected X ds =
     (Version ds > int SR_PROTO_VERSION \<or> ValidUntil ds < time_now X \<or>
      ValidAfter ds \<ge> ValidUntil ds \<or>
      (\<exists>l \<in> set (SharedRandValues ds). srv_line_fails X l) \<or>
      commit_lines_rejected X (Commits ds))"

section \<open>ESTABLISH\_INTRO and INTRO\_ESTABLISHED cells (cell\_establish\_intro.c)\<close>

text \<open>
  The Trunnel-generated codec (third unnamed source file).  The cell extension codec
  (\<open>cell_extension_parse\<close>, \<open>cell_extension_encode\<close>, \<open>cell_extension_check\<close>) and the
  Trunnel allocator are only declared there; they are the record \<open>trunnel_ext\<close>, over the
  type \<open>'e\<close> of parsed extensions.  \<open>cell_extension_parse input\<close> gives the return value and
  the object left in \<open>*output\<close>; \<open>cell_extension_encode avail obj\<close> gives the return value
  and the bytes written; \<open>trunnel_calloc_ok\<close> and \<open>dynarray_expand_ok n\<close> say whether the
  allocation of an object, or of \<open>n\<close> more array elements, succeeds.  The pointers that the
  parser records into its input are offsets from the start of the input.
\<close>

type_synonym ssize_t = int

record 'e trunnel_ext =
  cell_extension_parse :: "byte list \<Rightarrow> ssize_t \<times> 'e option"
  cell_extension_encode :: "nat \<Rightarrow> 'e option \<Rightarrow> ssize_t \<times> byte list"
  cell_extension_check :: "'e option \<Rightarrow> string option"
  trunnel_calloc_ok :: bool
  dynarray_expand_ok :: "nat \<Rightarrow> bool"

text \<open>
  Modelled from the spec: \<open>TRUNNEL_SHA3_256_LEN\<close>, a constant of the cell's header, which
  is not among the sources: the spec gives \<open>handshake_mac : u8[32]\<close>.
\<close>

definition TRUNNEL_SHA3_256_LEN :: nat where
  "TRUNNEL_SHA3_256_LEN = 32"

record 'e hs_cell_establish_intro_t =
  start_mac_data :: nat
  auth_key_type :: byte
  auth_key_len :: "16 word"
  auth_key :: "byte list"
  extensions :: "'e option"
  end_mac_data :: nat
  handshake_mac :: "byte list"
  sig_len :: "16 word"
  end_sig_fields :: nat
  sig :: "byte list"
  trunnel_error_code :: byte

record 'e hs_cell_intro_established_t =
  ie_extensions :: "'e option"
  ie_trunnel_error_code :: byte

text \<open>Big-endian 16-bit values: \<open>trunnel_ntohs (trunnel_get_uint16 ptr)\<close> and back.\<close>

definition get_uint16_be :: "byte \<Rightarrow> byte \<Rightarrow> 16 word" where
  "get_uint16_be a b = push_bit 8 (ucast a) OR ucast b"

definition put_uint16_be :: "16 word \<Rightarrow> byte list" where
  "put_uint16_be w = [ucast (drop_bit 8 w), ucast w]"

definition hs_cell_establish_intro_new :: "'e hs_cell_establish_intro_t" where
  "hs_cell_establish_intro_new =
     \<lparr>start_mac_data = 0, auth_key_type = 0, auth_key_len = 0, auth_key = [],
      extensions = None, end_mac_data = 0,
      handshake_mac = replicate TRUNNEL_SHA3_256_LEN 0, sig_len = 0, end_sig_fields = 0,
      sig = [], trunnel_error_code = 0\<rparr>"

definition hs_cell_establish_intro_check ::
  "'e trunnel_ext \<Rightarrow> 'e hs_cell_establish_intro_t \<Rightarrow> string option" where
  "hs_cell_establish_intro_check T obj =
     (if trunnel_error_code obj \<noteq> 0 then Some ''A set function failed on this object''
      else if \<not> (auth_key_type obj = 0 \<or> auth_key_type obj = 1 \<or> auth_key_type obj = 2) then
        Some ''Integer out of bounds''
      else if length (auth_key obj) \<noteq> unat (auth_key_len obj) then
        Some ''Length mismatch for auth_key''
      else
        case cell_extension_check T (extensions obj) of
          Some msg \<Rightarrow> Some msg
        | None \<Rightarrow>
            if length (sig obj) \<noteq> unat (sig_len obj) then Some ''Length mismatch for sig''
            else None)"

text \<open>
  \<open>hs_cell_establish_intro_encode output avail obj\<close>: the return value and the bytes that
  have been written to \<open>output\<close>.  The function is one definition per field, in the order
  of the source's blocks (\<open>Encode u8 auth_key_type\<close>, ...), read from the last to the
  first; each takes the bytes written so far and their number \<open>nwritten\<close> (the source's \<open>written\<close>).
\<close>

definition encode_sig ::
  "nat \<Rightarrow> 'e hs_cell_establish_intro_t \<Rightarrow> byte list \<Rightarrow> nat \<Rightarrow> crash + (ssize_t \<times> byte list)" where
  "encode_sig avail obj output nwritten =
     (let elt_len = length (sig obj) in
      if unat (sig_len obj) \<noteq> elt_len then Inl AssertionFailed
      else if \<not> nwritten \<le> avail then Inl AssertionFailed
      else if avail - nwritten < elt_len then Inr (- 2, output)
      else
        let output = output @ sig obj; nwritten = nwritten + elt_len
        in Inr (int nwritten, output))"

definition encode_sig_len ::
  "nat \<Rightarrow> 'e hs_cell_establish_intro_t \<Rightarrow> byte list \<Rightarrow> nat \<Rightarrow> crash + (ssize_t \<times> byte list)" where
  "encode_sig_len avail obj output nwritten =
     (if \<not> nwritten \<le> avail then Inl AssertionFailed
      else if avail - nwritten < 2 then Inr (- 2, output)
      else encode_sig avail obj (output @ put_uint16_be (sig_len obj)) (nwritten + 2))"

definition encode_handshake_mac ::
  "nat \<Rightarrow> 'e hs_cell_establish_intro_t \<Rightarrow> byte list \<Rightarrow> nat \<Rightarrow> crash + (ssize_t \<times> byte list)" where
  "encode_handshake_mac avail obj output nwritten =
     (if \<not> nwritten \<le> avail then Inl AssertionFailed
      else if avail - nwritten < TRUNNEL_SHA3_256_LEN then Inr (- 2, output)
      else
        encode_sig_len avail obj (output @ take TRUNNEL_SHA3_256_LEN (handshake_mac obj))
          (nwritten + TRUNNEL_SHA3_256_LEN))"

definition encode_extensions ::
  "'e trunnel_ext \<Rightarrow> nat \<Rightarrow> 'e hs_cell_establish_intro_t \<Rightarrow> byte list \<Rightarrow> nat \<Rightarrow>
     crash + (ssize_t \<times> byte list)" where
  "encode_extensions T avail obj output nwritten =
     (if \<not> nwritten \<le> avail then Inl AssertionFailed
      else
        let (result, ext_bytes) = cell_extension_encode T (avail - nwritten) (extensions obj) in
        if result < 0 then Inr (result, output)
        else encode_handshake_mac avail obj (output @ ext_bytes) (nwritten + nat result))"

definition encode_auth_key ::
  "'e trunnel_ext \<Rightarrow> nat \<Rightarrow> 'e hs_cell_establish_intro_t \<Rightarrow> byte list \<Rightarrow> nat \<Rightarrow>
     crash + (ssize_t \<times> byte list)" where
  "encode_auth_key T avail obj output nwritten =
     (let elt_len = length (auth_key obj) in
      if unat (auth_key_len obj) \<noteq> elt_len then Inl AssertionFailed
      else if \<not> nwritten \<le> avail then Inl AssertionFailed
      else if avail - nwritten < elt_len then Inr (- 2, output)
      else encode_extensions T avail obj (output @ auth_key obj) (nwritten + elt_len))"

definition encode_auth_key_len ::
  "'e trunnel_ext \<Rightarrow> nat \<Rightarrow> 'e hs_cell_establish_intro_t \<Rightarrow> byte list \<Rightarrow> nat \<Rightarrow>
     crash + (ssize_t \<times> byte list)" where
  "encode_auth_key_len T avail obj output nwritten =
     (if \<not> nwritten \<le> avail then Inl AssertionFailed
      else if avail - nwritten < 2 then Inr (- 2, output)
      else encode_auth_key T avail obj (output @ put_uint16_be (auth_key_len obj)) (nwritten + 2))"

definition encode_auth_key_type ::
  "'e trunnel_ext \<Rightarrow> nat \<Rightarrow> 'e hs_cell_establish_intro_t \<Rightarrow> byte list \<Rightarrow> nat \<Rightarrow>
     crash + (ssize_t \<times> byte list)" where
  "encode_auth_key_type T avail obj output nwritten =
     (if \<not> nwritten \<le> avail then Inl AssertionFailed
      else if avail - nwritten < 1 then Inr (- 2, output)
      else encode_auth_key_len T avail obj (output @ [auth_key_type obj]) (nwritten + 1))"

definition hs_cell_establish_intro_encode ::
  "'e trunnel_ext \<Rightarrow> nat \<Rightarrow> 'e hs_cell_establish_intro_t \<Rightarrow> crash + (ssize_t \<times> byte list)" where
  "hs_cell_establish_intro_encode T avail obj =
     (if hs_cell_establish_intro_check T obj \<noteq> None then Inr (- 1, [])
      else encode_auth_key_type T avail obj [] 0)"

text \<open>
  \<open>hs_cell_establish_intro_parse_into obj input len_in\<close>: the return value and the object
  as the parser leaves it.  Again one definition per field (\<open>Parse u8 auth_key_type\<close>,
  ...), from the last to the first; each takes the object so far, the offset \<open>ptr\<close> into
  the input and the number \<open>remaining\<close> of bytes after it.
\<close>

definition parse_sig ::
  "'e trunnel_ext \<Rightarrow> 'e hs_cell_establish_intro_t \<Rightarrow> byte list \<Rightarrow> nat \<Rightarrow> nat \<Rightarrow>
     crash + (ssize_t \<times> 'e hs_cell_establish_intro_t)" where
  "parse_sig T obj input ptr remaining =
     (if remaining < unat (sig_len obj) then Inr (- 2, obj)
      else if \<not> dynarray_expand_ok T (unat (sig_len obj)) then Inr (- 1, obj)
      else
        let obj = obj\<lparr>sig := take (unat (sig_len obj)) (drop ptr input)\<rparr>;
            ptr = ptr + unat (sig_len obj);
            remaining = remaining - unat (sig_len obj)
        in Inr (int (length input - remaining), obj))"

definition parse_sig_len ::
  "'e trunnel_ext \<Rightarrow> 'e hs_cell_establish_intro_t \<Rightarrow> byte list \<Rightarrow> nat \<Rightarrow> nat \<Rightarrow>
     crash + (ssize_t \<times> 'e hs_cell_establish_intro_t)" where
  "parse_sig_len T obj input ptr remaining =
     (if remaining < 2 then Inr (- 2, obj)
      else
        let obj = obj\<lparr>sig_len := get_uint16_be (input ! ptr) (input ! (ptr + 1))\<rparr>;
            remaining = remaining - 2; ptr = ptr + 2;
            obj = obj\<lparr>end_sig_fields := ptr\<rparr>
        in parse_sig T obj input ptr remaining)"

definition parse_handshake_mac ::
  "'e trunnel_ext \<Rightarrow> 'e hs_cell_establish_intro_t \<Rightarrow> byte list \<Rightarrow> nat \<Rightarrow> nat \<Rightarrow>
     crash + (ssize_t \<times> 'e hs_cell_establish_intro_t)" where
  "parse_handshake_mac T obj input ptr remaining =
     (if remaining < TRUNNEL_SHA3_256_LEN then Inr (- 2, obj)
      else
        let obj = obj\<lparr>handshake_mac := take TRUNNEL_SHA3_256_LEN (drop ptr input)\<rparr>;
            remaining = remaining - TRUNNEL_SHA3_256_LEN;
            ptr = ptr + TRUNNEL_SHA3_256_LEN
        in parse_sig_len T obj input ptr remaining)"

definition parse_extensions ::
  "'e trunnel_ext \<Rightarrow> 'e hs_cell_establish_intro_t \<Rightarrow> byte list \<Rightarrow> nat \<Rightarrow> nat \<Rightarrow>
     crash + (ssize_t \<times> 'e hs_cell_establish_intro_t)" where
  "parse_extensions T obj input ptr remaining =
     (let (result, ext) = cell_extension_parse T (take remaining (drop ptr input));
          obj = obj\<lparr>extensions := ext\<rparr>
      in
      if result < 0 then Inr (result, obj)
      else if \<not> nat result \<le> remaining then Inl AssertionFailed
      else
        let remaining = remaining - nat result; ptr = ptr + nat result;
            obj = obj\<lparr>end_mac_data := ptr\<rparr>
        in parse_handshake_mac T obj input ptr remaining)"

definition parse_auth_key ::
  "'e trunnel_ext \<Rightarrow> 'e hs_cell_establish_intro_t \<Rightarrow> byte list \<Rightarrow> nat \<Rightarrow> nat \<Rightarrow>
     crash + (ssize_t \<times> 'e hs_cell_establish_intro_t)" where
  "parse_auth_key T obj input ptr remaining =
     (if remaining < unat (auth_key_len obj) then Inr (- 2, obj)
      else if \<not> dynarray_expand_ok T (unat (auth_key_len obj)) then Inr (- 1, obj)
      else
        let obj = obj\<lparr>auth_key := take (unat (auth_key_len obj)) (drop ptr input)\<rparr>;
            ptr = ptr + unat (auth_key_len obj);
            remaining = remaining - unat (auth_key_len obj)
        in parse_extensions T obj input ptr remaining)"

definition parse_auth_key_len ::
  "'e trunnel_ext \<Rightarrow> 'e hs_cell_establish_intro_t \<Rightarrow> byte list \<Rightarrow> nat \<Rightarrow> nat \<Rightarrow>
     crash + (ssize_t \<times> 'e hs_cell_establish_intro_t)" where
  "parse_auth_key_len T obj input ptr remaining =
     (if remaining < 2 then Inr (- 2, obj)
      else
        let obj = obj\<lparr>auth_key_len := get_uint16_be (input ! ptr) (input ! (ptr + 1))\<rparr>;
            remaining = remaining - 2; ptr = ptr + 2
        in parse_auth_key T obj input ptr remaining)"

definition parse_auth_key_type ::
  "'e trunnel_ext \<Rightarrow> 'e hs_cell_establish_intro_t \<Rightarrow> byte list \<Rightarrow> nat \<Rightarrow> nat \<Rightarrow>
     crash + (ssize_t \<times> 'e hs_cell_establish_intro_t)" where
  "parse_auth_key_type T obj input ptr remaining =
     (if remaining < 1 then Inr (- 2, obj)
      else
        let obj = obj\<lparr>auth_key_type := input ! ptr\<rparr>;
            remaining = remaining - 1; ptr = ptr + 1
        in
        if \<not> (auth_key_type obj = 0 \<or> auth_key_type obj = 1 \<or> auth_key_type obj = 2) then
          Inr (- 1, obj)
        else parse_auth_key_len T obj input ptr remaining)"

definition hs_cell_establish_intro_parse_into ::
  "'e trunnel_ext \<Rightarrow> 'e hs_cell_establish_intro_t \<Rightarrow> byte list \<Rightarrow>
     crash + (ssize_t \<times> 'e hs_cell_establish_intro_t)" where
  "hs_cell_establish_intro_parse_into T obj input =
     (let ptr = 0; remaining = length input;
          obj = obj\<lparr>start_mac_data := ptr\<rparr>
      in parse_auth_key_type T obj input ptr remaining)"

text \<open>
  The end of both \<open>_parse\<close> functions: on a negative result the object is freed and
  \<open>*output\<close> is \<open>NULL\<close>.
\<close>

definition parse_epilogue :: "crash + (ssize_t \<times> 'a) \<Rightarrow> crash + (ssize_t \<times> 'a option)" where
  "parse_epilogue res =
     (case res of
        Inl e \<Rightarrow> Inl e
      | Inr (result, obj) \<Rightarrow> if result < 0 then Inr (result, None) else Inr (result, Some obj))"

definition hs_cell_establish_intro_parse ::
  "'e trunnel_ext \<Rightarrow> byte list \<Rightarrow> crash + (ssize_t \<times> 'e hs_cell_establish_intro_t option)" where
  "hs_cell_establish_intro_parse T input =
     (if \<not> trunnel_calloc_ok T then Inr (- 1, None)
      else parse_epilogue (hs_cell_establish_intro_parse_into T hs_cell_establish_intro_new input))"

definition hs_cell_intro_established_new :: "'e hs_cell_intro_established_t" where
  "hs_cell_intro_established_new = \<lparr>ie_extensions = None, ie_trunnel_error_code = 0\<rparr>"

definition hs_cell_intro_established_check ::
  "'e trunnel_ext \<Rightarrow> 'e hs_cell_intro_established_t \<Rightarrow> string option" where
  "hs_cell_intro_established_check T obj =
     (if ie_trunnel_error_code obj \<noteq> 0 then Some ''A set function failed on this object''
      else cell_extension_check T (ie_extensions obj))"

definition hs_cell_intro_established_encode ::
  "'e trunnel_ext \<Rightarrow> nat \<Rightarrow> 'e hs_cell_intro_established_t \<Rightarrow> crash + (ssize_t \<times> byte list)" where
  "hs_cell_intro_established_encode T avail obj =
     (if hs_cell_intro_established_check T obj \<noteq> None then Inr (- 1, [])
      else
        let (result, ext_bytes) = cell_extension_encode T avail (ie_extensions obj) in
        if result < 0 then Inr (result, []) else Inr (result, ext_bytes))"

definition hs_cell_intro_established_parse_into ::
  "'e trunnel_ext \<Rightarrow> 'e hs_cell_intro_established_t \<Rightarrow> byte list \<Rightarrow>
     crash + (ssize_t \<times> 'e hs_cell_intro_established_t)" where
  "hs_cell_intro_established_parse_into T obj input =
     (let len_in = length input; remaining = len_in;
          (result, ext) = cell_extension_parse T input;
          obj = obj\<lparr>ie_extensions := ext\<rparr>
      in
      if result < 0 then Inr (result, obj)
      else if \<not> nat result \<le> remaining then Inl AssertionFailed
      else
        let remaining = remaining - nat result
        in Inr (int (len_in - remaining), obj))"

definition hs_cell_intro_established_parse ::
  "'e trunnel_ext \<Rightarrow> byte list \<Rightarrow> crash + (ssize_t \<times> 'e hs_cell_intro_established_t option)" where
  "hs_cell_intro_established_parse T input =
     (if \<not> trunnel_calloc_ok T then Inr (- 1, None)
      else parse_epilogue (hs_cell_intro_established_parse_into T hs_cell_intro_established_new input))"

text \<open>
  What the theorems about the cells ask of the extension codec: a parse does not report
  more bytes than its input has; and an object it has parsed passes the check and encodes,
  given room, to the bytes that were consumed.
\<close>

definition cell_extension_parse_bounded :: "'e trunnel_ext \<Rightarrow> bool" where
  "cell_extension_parse_bounded T =
     (\<forall>bs. fst (cell_extension_parse T bs) \<le> int (length bs))"

definition cell_extension_roundtrip :: "'e trunnel_ext \<Rightarrow> bool" where
  "cell_extension_roundtrip T =
     (\<forall>bs. 0 \<le> fst (cell_extension_parse T bs) \<longrightarrow>
        cell_extension_check T (snd (cell_extension_parse T bs)) = None \<and>
        (\<forall>avail. nat (fst (cell_extension_parse T bs)) \<le> avail \<longrightarrow>
           cell_extension_encode T avail (snd (cell_extension_parse T bs)) =
             (fst (cell_extension_parse T bs), take (nat (fst (cell_extension_parse T bs))) bs)))"

text \<open>
  The two conditions on an input of the ESTABLISH\_INTRO parser.  The tag is out of range.
  The input ends before its declared fields are complete: within the tag and
  \<open>auth_key_len\<close>, within the \<open>auth_key_len\<close> bytes of the key, within the extensions (as
  their parser reports with -2), within \<open>handshake_mac\<close> and \<open>sig_len\<close>, or within the
  \<open>sig_len\<close> bytes of the signature.  \<open>input_truncated\<close> is the second without the first.
\<close>

definition tag_out_of_range :: "byte list \<Rightarrow> bool" where
  "tag_out_of_range input = (input \<noteq> [] \<and> \<not> (hd input = 0 \<or> hd input = 1 \<or> hd input = 2))"

definition extensions_result :: "'e trunnel_ext \<Rightarrow> byte list \<Rightarrow> ssize_t" where
  "extensions_result T input =
     fst (cell_extension_parse T
            (drop (3 + unat (get_uint16_be (input ! 1) (input ! 2))) input))"

definition fields_incomplete :: "'e trunnel_ext \<Rightarrow> byte list \<Rightarrow> bool" where
  "fields_incomplete T input =
     (length input < 3 \<or>
      length input < 3 + unat (get_uint16_be (input ! 1) (input ! 2)) \<or>
      extensions_result T input = - 2 \<or>
      0 \<le> extensions_result T input \<and>
      (let after = drop (3 + unat (get_uint16_be (input ! 1) (input ! 2)) +
                         nat (extensions_result T input)) input
       in length after < TRUNNEL_SHA3_256_LEN + 2 \<or>
          length after < TRUNNEL_SHA3_256_LEN + 2 +
            unat (get_uint16_be (after ! TRUNNEL_SHA3_256_LEN)
                    (after ! (TRUNNEL_SHA3_256_LEN + 1)))))"

definition input_truncated :: "'e trunnel_ext \<Rightarrow> byte list \<Rightarrow> bool" where
  "input_truncated T input = (fields_incomplete T input \<and> \<not> tag_out_of_range input)"

section \<open>Hidden service circuits, service side (hs\_circuit.c, hs\_service.h, hs\_ident.h)\<close>

text \<open>
  Keys, digests and cookies are byte lists.  \<open>circuit_t\<close> and \<open>origin_circuit_t\<close> are
  declared in or.h, which is not among the sources; the record has the fields this file
  reads and writes: the purpose, the state, whether the circuit is marked for close, the
  identifier \<open>hs_ident\<close> (\<open>None\<close> is NULL), \<open>build_state->is_internal\<close> (\<open>None\<close> when
  \<open>build_state\<close> is NULL) and \<open>cpath->prev->rend_circ_nonce\<close>.  Of the purposes and states
  of or.h, the datatypes have those this file names and one for the others.
\<close>

datatype circuit_purpose_t =
  CIRCUIT_PURPOSE_C_GENERAL | CIRCUIT_PURPOSE_C_REND_READY
  | CIRCUIT_PURPOSE_C_REND_READY_INTRO_ACKED | CIRCUIT_PURPOSE_C_REND_JOINED
  | CIRCUIT_PURPOSE_S_ESTABLISH_INTRO | CIRCUIT_PURPOSE_S_INTRO
  | CIRCUIT_PURPOSE_S_CONNECT_REND | CIRCUIT_PURPOSE_S_REND_JOINED
  | CIRCUIT_PURPOSE_OTHER nat

datatype circuit_state_t = CIRCUIT_STATE_OPEN | CIRCUIT_STATE_NOT_OPEN nat

record hs_ident_circuit_t =
  ident_identity_pk :: "byte list"
  ident_auth_key_legacy :: bool
  ident_intro_key :: "byte list"

record origin_circuit_t =
  circ_purpose :: circuit_purpose_t
  circ_state :: circuit_state_t
  marked_for_close :: bool
  hs_ident :: "hs_ident_circuit_t option"
  build_state_is_internal :: "bool option"
  rend_circ_nonce :: "byte list"

text \<open>
  The service structures of hs\_service.h, with the fields that hs\_circuit.c uses.  The
  replay cache is the list of what has been recorded in it.  The intro points of a
  descriptor are the entries of \<open>intro_points.map\<close> in the order \<open>DIGEST256MAP_FOREACH\<close>
  visits them.
\<close>

record hs_service_intro_point_t =
  ip_is_only_legacy :: bool
  ip_auth_key_pubkey :: "byte list"
  ip_enc_key_kp :: "byte list"
  ip_legacy_key :: "byte list option"
  introduce2_count :: "64 word"
  introduce2_max :: "64 word"
  time_to_expire :: int
  circuit_retries :: "32 word"
  circuit_established :: bool
  replay_cache :: "byte list list"


record hs_service_t =
  service_onion_address :: string
  service_identity_pk :: "byte list"
  num_intro_points :: "32 word"
  is_single_onion :: bool









text \<open>
  \<open>hs_cell_introduce2_data_t\<close> is declared in hs\_cell.h, which is not among the sources;
  the record has the fields that \<open>hs_circ_handle_introduce2\<close> sets and reads.
\<close>

record hs_cell_introduce2_data_t =
  data_auth_pk :: "byte list"
  data_enc_kp :: "byte list"
  data_subcredential :: "byte list"
  data_payload :: "byte list"
  data_onion_pk :: "byte list"
  data_rendezvous_cookie :: "byte list"

text \<open>
  What hs\_circuit.c calls outside the sources: \<open>crypto_pk_get_digest\<close> gives the return
  value and the digest; \<open>hs_cell_build_establish_intro\<close> gives the cell length and the
  payload; \<open>relay_send_command_from_edge\<close> gives the return value for a circuit, a payload
  and its length; \<open>hs_cell_parse_introduce2\<close> gives the return value and the data structure
  it leaves, from the data structure, the circuit and the service it is given.
\<close>

record hs_ext =
  crypto_pk_get_digest :: "byte list option \<Rightarrow> int \<times> byte list"
  hs_cell_build_establish_intro ::
    "byte list \<Rightarrow> hs_service_intro_point_t \<Rightarrow> ssize_t \<times> byte list"
  relay_send_command_from_edge :: "nat \<Rightarrow> byte list \<Rightarrow> ssize_t \<Rightarrow> int"
  hs_cell_parse_introduce2 ::
    "hs_cell_introduce2_data_t \<Rightarrow> origin_circuit_t \<Rightarrow> hs_service_t \<Rightarrow>
       int \<times> hs_cell_introduce2_data_t"




definition hs_circ_launch_rendezvous_point ::
  "hs_service_t \<Rightarrow> byte list \<Rightarrow> byte list \<Rightarrow> int" where
  "hs_circ_launch_rendezvous_point service onion_key rendezvous_cookie = 0"


text \<open>
  \<open>hs_circ_handle_introduce2\<close>: the return value and the intro point as it is left.  The
  data structure starts zeroed and gets the keys of the intro point, the subcredential
  and the payload.
\<close>

definition introduce2_data ::
  "hs_service_intro_point_t \<Rightarrow> byte list \<Rightarrow> byte list \<Rightarrow> hs_cell_introduce2_data_t" where
  "introduce2_data ip subcredential payload =
     \<lparr>data_auth_pk = ip_auth_key_pubkey ip, data_enc_kp = ip_enc_key_kp ip,
      data_subcredential = subcredential, data_payload = payload,
      data_onion_pk = replicate 32 0, data_rendezvous_cookie = replicate 20 0\<rparr>"

definition hs_circ_handle_introduce2 ::
  "hs_ext \<Rightarrow> hs_service_t \<Rightarrow> origin_circuit_t \<Rightarrow> hs_service_intro_point_t \<Rightarrow> byte list \<Rightarrow>
     byte list \<Rightarrow> int \<times> hs_service_intro_point_t" where
  "hs_circ_handle_introduce2 H service circ ip subcredential payload =
     (let data = introduce2_data ip subcredential payload;
          (r, data) = hs_cell_parse_introduce2 H data circ service
      in if r < 0 then (- 1, ip)
         else
           let ip = ip\<lparr>introduce2_count := introduce2_count ip + 1\<rparr>;
               ret = hs_circ_launch_rendezvous_point service (data_onion_pk data)
                       (data_rendezvous_cookie data)
           in if ret < 0 then (ret, ip) else (0, ip))"










section \<open>Concrete environments for the examples\<close>

text \<open>
  Stand-ins for the primitives, so that examples can be evaluated: the digest keeps the
  algorithm and the length of its input, the MAC adds key and message bytewise.
\<close>

definition example_digest256 :: "string \<Rightarrow> digest_algorithm_t \<Rightarrow> byte list option" where
  "example_digest256 s a =
     Some ((case a of DIGEST_SHA1 \<Rightarrow> 1 | DIGEST_SHA256 \<Rightarrow> 2 | DIGEST_SHA3_256 \<Rightarrow> 3) #
           of_nat (length s) # replicate 30 0)"

definition example_hmac_sha256 :: "byte list \<Rightarrow> byte list \<Rightarrow> byte list" where
  "example_hmac_sha256 k m = map2 (+) k (take 32 m)"

definition example_crypto :: sr_crypto where
  "example_crypto =
     \<lparr>crypto_digest256 = example_digest256, crypto_hmac_sha256 = example_hmac_sha256\<rparr>"

definition example_commit :: "string \<Rightarrow> string \<Rightarrow> sr_commit_t" where
  "example_commit fp reveal =
     \<lparr>alg = DIGEST_SHA3_256, auth_identity = bytes_of_string fp, auth_fingerprint = fp,
      rsa_identity_fpr = fp, reveal_ts = 0,
      hashed_reveal = the (example_digest256 reveal SR_DIGEST_ALG),
      encoded_commit = ''c'', random_number = replicate 32 0, commit_ts = 0,
      encoded_reveal = reveal\<rparr>"

definition example_draft_state ::
  "sr_commit_t list \<Rightarrow> sr_srv_t option \<Rightarrow> draft_sr_state_t" where
  "example_draft_state cs prev =
     \<lparr>d_version = 1, d_phase = SR_PHASE_REVEAL, d_valid_until = 0,
      commitments = map (\<lambda>c. (auth_identity c, c)) cs,
      d_previous_srv = prev, d_current_srv = None,
      n_commit_rounds = 3, n_reveal_rounds = 3, n_protocol_runs = 1\<rparr>"

definition example_commits :: "sr_commit_t list" where
  "example_commits =
     [example_commit ''B'' ''r2'', example_commit ''A'' ''r1'', example_commit ''C'' ''r3'']"

definition example_prev_srv :: sr_srv_t where
  "example_prev_srv =
     \<lparr>num_reveals = 0, srv_value = replicate 32 17, status = SR_SRV_STATUS_FRESH\<rparr>"

text \<open>
  Stand-ins for the environment of the shared random state: a one-hour voting interval,
  decimal and hexadecimal codecs, keys and base64 blobs taken as they are written, tokens
  split at spaces, and a state file given by the disk state that \<open>config_assign\<close> fills.
\<close>

definition digit_of_char :: "char \<Rightarrow> int option" where
  "digit_of_char c =
     (if CHR ''0'' \<le> c \<and> c \<le> CHR ''9'' then Some (of_char c - 48) else None)"

definition example_tor_parse_long :: "string \<Rightarrow> int \<Rightarrow> int \<Rightarrow> int \<Rightarrow> int \<times> bool" where
  "example_tor_parse_long s base lo hi =
     (case those (map digit_of_char s) of
        None \<Rightarrow> (0, False)
      | Some ds \<Rightarrow>
          let v = foldl (\<lambda>a d. a * base + d) 0 ds
          in if ds \<noteq> [] \<and> lo \<le> v \<and> v \<le> hi then (v, True) else (0, False))"

definition hex_of_char :: "char \<Rightarrow> byte option" where
  "hex_of_char c =
     (if CHR ''0'' \<le> c \<and> c \<le> CHR ''9'' then Some (of_char c - 48)
      else if CHR ''A'' \<le> c \<and> c \<le> CHR ''F'' then Some (of_char c - 55)
      else if CHR ''a'' \<le> c \<and> c \<le> CHR ''f'' then Some (of_char c - 87)
      else None)"

fun hex_pairs :: "byte list \<Rightarrow> byte list" where
  "hex_pairs (a # b # rest) = (push_bit 4 a OR b) # hex_pairs rest"
| "hex_pairs _ = []"

definition example_base16_decode ::
  "byte list \<Rightarrow> nat \<Rightarrow> string \<Rightarrow> nat \<Rightarrow> int \<times> byte list" where
  "example_base16_decode dest destlen src srclen =
     (if odd srclen \<or> destlen < srclen div 2 \<or> length src < srclen then (- 1, dest)
      else
        case those (map hex_of_char (take srclen src)) of
          None \<Rightarrow> (- 1, dest)
        | Some ds \<Rightarrow> (0, hex_pairs ds @ drop (srclen div 2) dest))"

definition char_of_hex :: "byte \<Rightarrow> char" where
  "char_of_hex d = (if d < 10 then char_of (unat d + 48) else char_of (unat d + 55))"

definition example_base16_encode :: "byte list \<Rightarrow> string" where
  "example_base16_encode bs = concat (map (\<lambda>b. [char_of_hex (drop_bit 4 b), char_of_hex (b AND 15)]) bs)"

definition example_base64_decode :: "nat \<Rightarrow> string \<Rightarrow> byte list option" where
  "example_base64_decode destlen src =
     (if length src \<le> destlen then Some (bytes_of_string src) else None)"

definition example_parse_name :: "string \<Rightarrow> digest_algorithm_t option" where
  "example_parse_name s =
     (if s = ''sha1'' then Some DIGEST_SHA1
      else if s = ''sha256'' then Some DIGEST_SHA256
      else if s = ''sha3-256'' then Some DIGEST_SHA3_256
      else None)"

definition example_get_name :: "digest_algorithm_t \<Rightarrow> string" where
  "example_get_name a =
     (case a of DIGEST_SHA1 \<Rightarrow> ''sha1'' | DIGEST_SHA256 \<Rightarrow> ''sha256''
      | DIGEST_SHA3_256 \<Rightarrow> ''sha3-256'')"

fun split_spaces :: "string \<Rightarrow> string \<Rightarrow> string list" where
  "split_spaces tok [] = (if tok = [] then [] else [tok])"
| "split_spaces tok (c # cs) =
     (if c = CHR '' '' then (if tok = [] then [] else [tok]) @ split_spaces [] cs
      else split_spaces (tok @ [c]) cs)"

definition lower_char :: "char \<Rightarrow> char" where
  "lower_char c =
     (if CHR ''A'' \<le> c \<and> c \<le> CHR ''Z'' then char_of (of_char c + (32 :: nat)) else c)"

definition example_strcasecmp :: "string \<Rightarrow> string \<Rightarrow> int" where
  "example_strcasecmp a b = strcmp (map lower_char a) (map lower_char b)"

definition example_format_d :: "int \<Rightarrow> string" where
  "example_format_d n =
     (if 0 \<le> n \<and> n < 10 then [''0123456789'' ! nat n] else ''#'')"

definition example_disk_state :: sr_disk_state_t where
  "example_disk_state =
     \<lparr>magic = SR_DISK_STATE_MAGIC, Version = 1, ValidUntil = 1036800, ValidAfter = 1000800,
      Commits = [], SharedRandValues = [], ExtraLines = []\<rparr>"

definition example_ext :: sr_ext where
  "example_ext =
     \<lparr>time_now = 1000000,
      get_voting_interval = 3600,
      TestingV3AuthVotingStartOffset = 0,
      voting_schedule_interval_starts = (\<lambda>now. (now div 3600 + 1) * 3600),
      dirvote_get_start_of_next_interval = (\<lambda>now interval offset. (now div interval + 1) * interval),
      get_next_valid_after_time = (\<lambda>now. (now div 3600 + 1) * 3600),
      tor_parse_long = example_tor_parse_long,
      base16_decode = example_base16_decode,
      base16_encode = example_base16_encode,
      base64_decode = example_base64_decode,
      crypto_digest_algorithm_parse_name = example_parse_name,
      crypto_digest_algorithm_get_name = example_get_name,
      ed25519_public_from_base64 = (\<lambda>s. if s = [] then None else Some (bytes_of_string s)),
      ed25519_public_to_base64 = map (\<lambda>b. char_of (unat b)),
      FINGERPRINT_LEN = 49,
      digestmap_key = take 20,
      smartlist_split_string = split_spaces [],
      strcasecmp = example_strcasecmp,
      format_d = example_format_d,
      file_status = (\<lambda>name. FN_FILE),
      read_file_to_str = (\<lambda>name. Some []),
      config_get_lines = (\<lambda>content. Some []),
      config_assign = (\<lambda>ds lines. (None, example_disk_state)),
      config_init = (\<lambda>ds. ds),
      config_dump = (\<lambda>ds. ''Version '' @ example_format_d (Version ds)),
      format_local_iso_time = (\<lambda>t. ''1970-01-12 13:46:40''),
      get_datadir_fname = (\<lambda>f. ''/var/lib/tor/'' @ f),
      write_str_to_file = (\<lambda>name content. 0)\<rparr>"

definition empty_world :: sr_world where
  "empty_world = \<lparr>sr_state = None, sr_disk_state = None, written = None\<rparr>"

text \<open>The state and the disk state that \<open>state_new\<close> and \<open>disk_state_new\<close> make at that time.\<close>

definition example_state :: sr_state_t where
  "example_state =
     \<lparr>fname = default_fname, version = 1, phase = SR_PHASE_REVEAL, valid_after = 0,
      valid_until = 1036800, commits = [], previous_srv = None, current_srv = None,
      is_srv_fresh = False\<rparr>"

definition example_new_disk_state :: sr_disk_state_t where
  "example_new_disk_state =
     \<lparr>magic = SR_DISK_STATE_MAGIC, Version = 1, ValidUntil = 1036800, ValidAfter = 1000000,
      Commits = [], SharedRandValues = [], ExtraLines = []\<rparr>"

definition example_world :: sr_world where
  "example_world =
     \<lparr>sr_state = Some example_state, sr_disk_state = Some example_new_disk_state,
      written = None\<rparr>"

text \<open>A state file whose current SRV line has a single token, and an environment that reads it.\<close>

definition example_bad_disk_state :: sr_disk_state_t where
  "example_bad_disk_state =
     example_disk_state
       \<lparr>SharedRandValues := [\<lparr>cl_key = dstate_cur_srv_key, cl_value = Some ''3''\<rparr>]\<rparr>"

definition example_bad_ext :: sr_ext where
  "example_bad_ext = example_ext\<lparr>config_assign := (\<lambda>ds lines. (None, example_bad_disk_state))\<rparr>"

text \<open>
  A state file with three Commit lines, the first with two tokens only and the other two
  the same line that parses; and an environment that reads it.
\<close>

definition example_commit_line :: config_line_t where
  "example_commit_line =
     \<lparr>cl_key = dstate_commit_key,
      cl_value = Some (''sha3-256 KEYA FPRA '' @ replicate 40 (CHR ''c''))\<rparr>"

definition example_bad_commits_disk_state :: sr_disk_state_t where
  "example_bad_commits_disk_state =
     example_disk_state
       \<lparr>Commits := [\<lparr>cl_key = dstate_commit_key, cl_value = Some ''sha3-256 KEYA''\<rparr>,
                    example_commit_line, example_commit_line]\<rparr>"

definition example_bad_commits_ext :: sr_ext where
  "example_bad_commits_ext =
     example_ext\<lparr>config_assign := (\<lambda>ds lines. (None, example_bad_commits_disk_state))\<rparr>"

text \<open>
  A stand-in for the cell extension codec: one length byte and that many bytes of body.
  The example cell has an Ed25519 tag, a one-byte key, an empty extension body, a MAC of
  32 bytes and a one-byte signature.
\<close>

definition example_cell_extension_parse :: "byte list \<Rightarrow> ssize_t \<times> byte list option" where
  "example_cell_extension_parse bs =
     (case bs of
        [] \<Rightarrow> (- 2, None)
      | n # rest \<Rightarrow>
          if length rest < unat n then (- 2, None)
          else (int (1 + unat n), Some (take (unat n) rest)))"

definition example_cell_extension_check :: "byte list option \<Rightarrow> string option" where
  "example_cell_extension_check e =
     (case e of
        None \<Rightarrow> Some ''Object was NULL''
      | Some body \<Rightarrow> if 255 < length body then Some ''Length mismatch for body'' else None)"

definition example_cell_extension_encode :: "nat \<Rightarrow> byte list option \<Rightarrow> ssize_t \<times> byte list" where
  "example_cell_extension_encode avail e =
     (case e of
        None \<Rightarrow> (- 1, [])
      | Some body \<Rightarrow>
          if 255 < length body then (- 1, [])
          else if avail < 1 + length body then (- 2, [])
          else (int (1 + length body), of_nat (length body) # body))"

definition example_trunnel_ext :: "byte list trunnel_ext" where
  "example_trunnel_ext =
     \<lparr>cell_extension_parse = example_cell_extension_parse,
      cell_extension_encode = example_cell_extension_encode,
      cell_extension_check = example_cell_extension_check,
      trunnel_calloc_ok = True,
      dynarray_expand_ok = (\<lambda>n. True)\<rparr>"

definition example_cell :: "byte list" where
  "example_cell = [2, 0, 1, 7] @ [0] @ replicate 32 170 @ [0, 1, 9]"


definition example_cell_obj :: "byte list hs_cell_establish_intro_t" where
  "example_cell_obj =
     \<lparr>start_mac_data = 0, auth_key_type = 2, auth_key_len = 1, auth_key = [7],
      extensions = Some [], end_mac_data = 5, handshake_mac = replicate 32 170,
      sig_len = 1, end_sig_fields = 39, sig = [9], trunnel_error_code = 0\<rparr>"

text \<open>
  A service that wants one intro point, a descriptor with two, an open intro circuit for
  the first and a circuit that is still built for the second.  The stand-ins for the
  environment take the digest of a legacy key from its first bytes, build a cell from the
  authentication key, send every cell, and accept every INTRODUCE2 payload that is not
  empty, reading the onion key and the cookie from it.
\<close>

definition example_hs_ext :: hs_ext where
  "example_hs_ext =
     \<lparr>crypto_pk_get_digest =
        (\<lambda>k. case k of None \<Rightarrow> (- 1, []) | Some legacy \<Rightarrow> (0, take 20 legacy)),
      hs_cell_build_establish_intro =
        (\<lambda>nonce ip. (int (length (ip_auth_key_pubkey ip)), ip_auth_key_pubkey ip)),
      relay_send_command_from_edge = (\<lambda>circ payload len. 0),
      hs_cell_parse_introduce2 =
        (\<lambda>data circ service.
           if data_payload data = [] then (- 1, data)
           else (0, data\<lparr>data_onion_pk := take 32 (data_payload data),
                         data_rendezvous_cookie := take 20 (drop 32 (data_payload data))\<rparr>))\<rparr>"

definition example_service :: hs_service_t where
  "example_service =
     \<lparr>service_onion_address = ''example'', service_identity_pk = [1], num_intro_points = 1,
      is_single_onion = False\<rparr>"

definition example_ip :: "byte \<Rightarrow> hs_service_intro_point_t" where
  "example_ip k =
     \<lparr>ip_is_only_legacy = False, ip_auth_key_pubkey = [k], ip_enc_key_kp = [k, k],
      ip_legacy_key = None, introduce2_count = 0, introduce2_max = 16384, time_to_expire = 0,
      circuit_retries = 0, circuit_established = False, replay_cache = []\<rparr>"


definition example_circuit :: "circuit_state_t \<Rightarrow> origin_circuit_t" where
  "example_circuit st =
     \<lparr>circ_purpose = CIRCUIT_PURPOSE_S_ESTABLISH_INTRO, circ_state = st,
      marked_for_close = False,
      hs_ident = Some \<lparr>ident_identity_pk = [1], ident_auth_key_legacy = False,
                       ident_intro_key = []\<rparr>,
      build_state_is_internal = Some True, rend_circ_nonce = []\<rparr>"


section \<open>Theorems: the shared random value\<close>

lemma insort_cmp_insort_key:
  assumes "\<And>x y. (cmp x y \<le> 0) = (f x \<le> f y)"
  shows "insort_cmp cmp x ys = insort_key f x ys"
  by (induction ys) (simp_all add: assms)

lemma smartlist_sort_sort_key:
  assumes "\<And>x y. (cmp x y \<le> 0) = (f x \<le> f y)"
  shows "smartlist_sort cmp xs = sort_key f xs"
  by (induction xs) (simp_all add: smartlist_sort_def sort_key_def insort_cmp_insort_key [OF assms])

lemma compare_commit_identity_le:
  "(compare_commit_identity a b \<le> 0) = (auth_fingerprint a \<le> auth_fingerprint b)"
  by (auto simp: compare_commit_identity_def strcmp_def)

lemma sort_commits:
  "smartlist_sort compare_commit_identity cs = sort_key auth_fingerprint cs"
  by (rule smartlist_sort_sort_key) (rule compare_commit_identity_le)

lemma generate_srv_message:
  assumes "3 \<le> unat n"
    and "\<And>p. d_previous_srv st = Some p \<Longrightarrow> length (srv_value p) = 32"
  shows "generate_srv X st h n =
     Inr \<lparr>num_reveals = 0,
          srv_value = crypto_hmac_sha256 X (take 32 h) (bytes_of_string ''shared-random'' @ [n] @ [1] @
              (case d_previous_srv st of None \<Rightarrow> replicate 32 0 | Some p \<Rightarrow> srv_value p)),
          status = SR_SRV_STATUS_FRESH\<rparr>"
  using assms
  by (cases "d_previous_srv st")
     (simp_all add: generate_srv_def Let_def memcpy_def set_uint8_def SR_SRV_HMAC_MSG_LEN_def
       SR_SRV_TOKEN_LEN_def SR_SRV_TOKEN_def DIGEST256_LEN_def SR_PROTO_VERSION_def zero_srv_def
       bytes_of_string_def eval_nat_numeral)

lemma unat_reveal_num: "n < 255 \<Longrightarrow> unat (of_nat n :: byte) = n"
  by (simp add: unat_of_nat)

text \<open>
  C1 (amended).  At the end of the reveal phase, when every commit stored in the state has
  a valid commit blob and a valid matching reveal (so that \<open>C\<close> is all the stored commits),
  \<open>3 \<le> |C| < 255\<close> and the digest call succeeds, \<open>compute_shared_random_value\<close> sorts
  \<open>C\<close> ascending by \<open>auth_fingerprint\<close>, concatenates \<open>auth_fingerprint || encoded_reveal\<close>
  in that order into \<open>R\<close>, takes \<open>hashed_reveals\<close> to be the SHA-256 digest of \<open>R\<close> (not
  SHA3-256), builds \<open>M = "shared-random" || u8(|C|) || u8(SR_PROTO_VERSION) ||\<close> (the
  previous SRV's value, or 32 zero bytes when there is none), and installs as current SRV
  the value \<open>HMAC-SHA256(key = hashed_reveals, msg = M)\<close>, marked fresh; \<open>num_reveals\<close> is
  not assigned and keeps the 0 of the zeroed allocation.
\<close>

theorem compute_shared_random_value_srv:
  assumes "d_phase st = SR_PHASE_REVEAL"
    and "spec_C X st = map snd (commitments st)"
    and "3 \<le> length (spec_C X st)" and "length (spec_C X st) < 255"
    and "\<And>p. d_previous_srv st = Some p \<Longrightarrow> length (srv_value p) = 32"
    and "crypto_digest256 X (spec_reveals (spec_C X st)) DIGEST_SHA256 = Some h"
    and "length h = 32"
  shows "compute_shared_random_value X st =
     Inr (st\<lparr>d_current_srv := Some
       \<lparr>num_reveals = 0,
        srv_value = crypto_hmac_sha256 X h
          (spec_message (length (spec_C X st)) (d_previous_srv st)),
        status = SR_SRV_STATUS_FRESH\<rparr>\<rparr>)"
proof -
  let ?n = "length (commitments st)"
  have n: "3 \<le> ?n" "?n < 255"
    using assms(2,3,4) by simp_all
  have u: "3 \<le> unat (of_nat ?n :: byte)"
    using n by (simp add: unat_reveal_num)
  have r: "concat (map get_srv_element_from_commit
             (smartlist_sort compare_commit_identity (map snd (commitments st)))) =
           spec_reveals (spec_C X st)"
    by (simp add: assms(2) sort_commits spec_reveals_def
        get_srv_element_from_commit_def [abs_def])
  have g: "generate_srv X st h (of_nat ?n) =
     Inr \<lparr>num_reveals = 0,
          srv_value = crypto_hmac_sha256 X h (spec_message ?n (d_previous_srv st)),
          status = SR_SRV_STATUS_FRESH\<rparr>"
    using generate_srv_message [OF u assms(5), where X = X and h = h] assms(7)
    by (simp add: spec_message_def SR_PROTO_VERSION_def)
  have ne: "commitments st \<noteq> []"
    using n by auto
  show ?thesis
    using n ne assms(1,6) g
    by (simp add: compute_shared_random_value_def Let_def UINT8_MAX_def SR_SRV_MIN_REVEAL_def
        r assms(2))
qed

theorem compute_shared_random_value_srv_witness:
  "compute_shared_random_value example_crypto
       (example_draft_state example_commits (Some example_prev_srv)) =
     Inr ((example_draft_state example_commits (Some example_prev_srv))
       \<lparr>d_current_srv := Some
         \<lparr>num_reveals = 0,
          srv_value = [117, 113, 97, 114, 101, 100, 45, 114, 97, 110, 100, 111, 109, 3, 1,
            17, 17, 17, 17, 17, 17, 17, 17, 17, 17, 17, 17, 17, 17, 17, 17, 17],
          status = SR_SRV_STATUS_FRESH\<rparr>\<rparr>)"
proof -
  let ?st = "example_draft_state example_commits (Some example_prev_srv)"
  let ?h = "2 # 9 # replicate 30 (0 :: byte)"
  have c: "spec_C example_crypto ?st = map snd (commitments ?st)"
    by (simp add: spec_C_def spec_valid_reveal_def example_draft_state_def example_commits_def
        example_commit_def example_crypto_def example_digest256_def SR_DIGEST_ALG_def)
  have l: "length (spec_C example_crypto ?st) = 3"
    unfolding c by (simp add: example_draft_state_def example_commits_def)
  have d: "crypto_digest256 example_crypto (spec_reveals (spec_C example_crypto ?st))
             DIGEST_SHA256 = Some ?h"
    unfolding c
    by (simp add: spec_reveals_def example_draft_state_def example_commits_def
        example_commit_def example_crypto_def example_digest256_def bytes_of_string_def)
  have m: "crypto_hmac_sha256 example_crypto ?h
             (spec_message 3 (d_previous_srv ?st)) =
           [117, 113, 97, 114, 101, 100, 45, 114, 97, 110, 100, 111, 109, 3, 1,
            17, 17, 17, 17, 17, 17, 17, 17, 17, 17, 17, 17, 17, 17, 17, 17, 17]"
    by (simp add: example_crypto_def example_hmac_sha256_def spec_message_def
        example_draft_state_def example_prev_srv_def bytes_of_string_def SR_PROTO_VERSION_def
        eval_nat_numeral)
  have p: "d_phase ?st = SR_PHASE_REVEAL"
    by (simp add: example_draft_state_def)
  have v: "\<And>p. d_previous_srv ?st = Some p \<Longrightarrow> length (srv_value p) = 32"
    by (simp add: example_draft_state_def example_prev_srv_def)
  have b: "3 \<le> length (spec_C example_crypto ?st)" "length (spec_C example_crypto ?st) < 255"
    by (simp_all add: l)
  have k: "length ?h = 32"
    by simp
  from compute_shared_random_value_srv [OF p c b v d k]
  show ?thesis
    by (simp only: l m)
qed

text \<open>
  C1 as stated fails: with three commits that all carry a valid reveal, the installed
  value is not the SRV of the specification (the reveals are hashed with SHA-256, and
  \<open>num_reveals\<close> is 0 rather than 3).
\<close>

theorem compute_shared_random_value_srv_counterexample:
  "length (spec_C example_crypto (example_draft_state example_commits (Some example_prev_srv))) = 3 \<and>
   map_sum id d_current_srv
     (compute_shared_random_value example_crypto
        (example_draft_state example_commits (Some example_prev_srv))) \<noteq>
   Inr (spec_srv example_crypto (example_draft_state example_commits (Some example_prev_srv)))"
  by code_simp

text \<open>
  C2 (amended).  When the SRV is computed in the reveal phase with at least one and fewer
  than 3 commits in the state and a previous SRV exists, the installed current SRV is
  \<open>HMAC-SHA256(key = previous_srv.value, msg = "shared-random-disaster")\<close> and it is
  marked non-fresh; with no commit in the state no SRV is computed and the state is left
  as it is.
\<close>

theorem compute_shared_random_value_disaster:
  assumes "d_phase st = SR_PHASE_REVEAL"
  shows "(length (commitments st) = 0 \<longrightarrow> compute_shared_random_value X st = Inr st) \<and>
    (0 < length (commitments st) \<and> length (commitments st) < 3 \<and>
     d_previous_srv st = Some p \<and> length (srv_value p) = 32 \<longrightarrow>
     compute_shared_random_value X st =
       Inr (st\<lparr>d_current_srv := Some
         \<lparr>num_reveals = 0,
          srv_value = crypto_hmac_sha256 X (srv_value p)
            (bytes_of_string ''shared-random-disaster''),
          status = SR_SRV_STATUS_NONFRESH\<rparr>\<rparr>))"
  using assms
  by (simp add: compute_shared_random_value_def generate_srv_disaster_def UINT8_MAX_def
      SR_SRV_MIN_REVEAL_def Let_def zero_srv_def DIGEST256_LEN_def)

theorem compute_shared_random_value_disaster_witness:
  "compute_shared_random_value example_crypto (example_draft_state [] (Some example_prev_srv)) =
     Inr (example_draft_state [] (Some example_prev_srv)) \<and>
   compute_shared_random_value example_crypto
       (example_draft_state (take 2 example_commits) (Some example_prev_srv)) =
     Inr ((example_draft_state (take 2 example_commits) (Some example_prev_srv))
       \<lparr>d_current_srv := Some
         \<lparr>num_reveals = 0,
          srv_value = crypto_hmac_sha256 example_crypto (srv_value example_prev_srv)
            (bytes_of_string ''shared-random-disaster''),
          status = SR_SRV_STATUS_NONFRESH\<rparr>\<rparr>)"
  using compute_shared_random_value_disaster
      [where st = "example_draft_state [] (Some example_prev_srv)" and X = example_crypto
        and p = example_prev_srv]
    compute_shared_random_value_disaster
      [where st = "example_draft_state (take 2 example_commits) (Some example_prev_srv)"
        and X = example_crypto and p = example_prev_srv]
  by (simp add: example_draft_state_def example_commits_def example_prev_srv_def)

text \<open>
  C2 as stated fails: with no commit in the state (fewer than 3 reveals) and a previous
  SRV at hand, no disaster SRV is installed; the current SRV stays absent.
\<close>

theorem compute_shared_random_value_disaster_counterexample:
  "length (spec_C example_crypto (example_draft_state [] (Some example_prev_srv))) < 3 \<and>
   map_sum id d_current_srv
     (compute_shared_random_value example_crypto
        (example_draft_state [] (Some example_prev_srv))) = Inr None \<and>
   spec_srv example_crypto (example_draft_state [] (Some example_prev_srv)) =
     Some (spec_disaster_srv example_crypto example_prev_srv)"
  by code_simp

text \<open>
  C10.  \<open>generate_srv_disaster\<close> reads \<open>sr_state->previous_srv->value\<close> without a test:
  it is a read through NULL exactly when the state has no previous SRV.  So whenever the
  disaster branch of \<open>compute_shared_random_value\<close> is reached (reveal phase, at least one
  commit, fewer than 3) with no previous SRV, the computation dereferences a null pointer;
  no key of 32 zero bytes is substituted and no SRV is installed.
\<close>

theorem generate_srv_disaster_null_previous_srv:
  "((generate_srv_disaster X st = Inl NullPointerDereference) = (d_previous_srv st = None)) \<and>
   (d_phase st = SR_PHASE_REVEAL \<and> d_previous_srv st = None \<and>
    0 < length (commitments st) \<and> length (commitments st) < SR_SRV_MIN_REVEAL \<longrightarrow>
    compute_shared_random_value X st = Inl NullPointerDereference)"
  by (auto simp: compute_shared_random_value_def generate_srv_disaster_def UINT8_MAX_def
      SR_SRV_MIN_REVEAL_def Let_def split: option.splits)

theorem generate_srv_disaster_null_previous_srv_witness:
  "d_previous_srv (example_draft_state (take 1 example_commits) None) = None \<and>
   generate_srv_disaster example_crypto (example_draft_state (take 1 example_commits) None) =
     Inl NullPointerDereference \<and>
   compute_shared_random_value example_crypto
     (example_draft_state (take 1 example_commits) None) = Inl NullPointerDereference"
  using generate_srv_disaster_null_previous_srv
      [where X = example_crypto and st = "example_draft_state (take 1 example_commits) None"]
  by (simp add: example_draft_state_def example_commits_def SR_SRV_MIN_REVEAL_def)

section \<open>Theorems: parsing an SRV line\<close>

text \<open>
  C9.  \<open>sr_parse_srv\<close> returns NULL exactly when fewer than two arguments are supplied or
  \<open>tor_parse_long\<close> does not accept the first one as an integer in \<open>[0, INT32_MAX]\<close>.  The
  return value of \<open>base16_decode\<close> is discarded: whenever the first two checks pass, the
  result is an SRV object holding the parsed count and whatever the decoder left in the
  value buffer, also when the decoder reports failure.
\<close>

theorem sr_parse_srv_null_iff:
  "((sr_parse_srv X args = None) =
      (length args < 2 \<or> \<not> snd (tor_parse_long X (args ! 0) 10 0 INT32_MAX))) \<and>
   (2 \<le> length args \<and> snd (tor_parse_long X (args ! 0) 10 0 INT32_MAX) \<longrightarrow>
      sr_parse_srv X args =
        Some \<lparr>num_reveals = int_of_long (fst (tor_parse_long X (args ! 0) 10 0 INT32_MAX)),
              srv_value = snd (base16_decode X (replicate 32 0) 32 (args ! 1) 64),
              status = SR_SRV_STATUS_FRESH\<rparr>)"
  by (auto simp: sr_parse_srv_def Let_def zero_srv_def DIGEST256_LEN_def HEX_DIGEST256_LEN_def
      split: prod.splits)

theorem sr_parse_srv_null_iff_witness:
  "fst (base16_decode example_ext (replicate 32 0) 32 ''zz'' 64) = - 1 \<and>
   sr_parse_srv example_ext [''3'', ''zz''] =
     Some \<lparr>num_reveals = 3, srv_value = replicate 32 0, status = SR_SRV_STATUS_FRESH\<rparr> \<and>
   sr_parse_srv example_ext [''3''] = None \<and>
   sr_parse_srv example_ext [''-3'', ''zz''] = None"
proof -
  have p: "tor_parse_long example_ext ''3'' 10 0 INT32_MAX = (3, True)"
    by (simp add: example_ext_def example_tor_parse_long_def digit_of_char_def INT32_MAX_def)
  have q: "tor_parse_long example_ext ''-3'' 10 0 INT32_MAX = (0, False)"
    by (simp add: example_ext_def example_tor_parse_long_def digit_of_char_def INT32_MAX_def)
  have d: "base16_decode example_ext (replicate 32 0) 32 ''zz'' 64 = (- 1, replicate 32 0)"
    by (simp add: example_ext_def example_base16_decode_def)
  have i: "int_of_long 3 = 3"
    by (simp add: int_of_long_def)
  show ?thesis
    using sr_parse_srv_null_iff [where X = example_ext and args = "[''3'', ''zz'']"]
      sr_parse_srv_null_iff [where X = example_ext and args = "[''3'']"]
      sr_parse_srv_null_iff [where X = example_ext and args = "[''-3'', ''zz'']"]
    by (simp add: p q d i)
qed

section \<open>Theorems: adding a commit to the state\<close>

lemma digestmap_set_fresh:
  "map_of m k = None \<Longrightarrow> digestmap_set m k v = (m @ [(k, v)], None)"
  by (simp add: digestmap_set_def)

lemma digestmap_set_present:
  "map_of m k = Some old \<Longrightarrow> snd (digestmap_set m k v) = Some old"
  by (simp add: digestmap_set_def)

lemma commit_add_to_state_fresh:
  "map_of (commits st) (digestmap_key X (rsa_identity_fpr c)) = None \<Longrightarrow>
   commit_add_to_state X c (Some st) =
     Inr (st\<lparr>commits := commits st @ [(digestmap_key X (rsa_identity_fpr c), c)]\<rparr>)"
  by (simp add: commit_add_to_state_def digestmap_set_fresh)

lemma commit_add_to_state_present:
  "map_of (commits st) (digestmap_key X (rsa_identity_fpr c)) \<noteq> None \<Longrightarrow>
   commit_add_to_state X c (Some st) = Inl AssertionFailed"
  by (auto simp: commit_add_to_state_def digestmap_set_def split: option.splits)

lemma disk_state_save_to_disk_state:
  assumes "sr_state w = Some st"
  shows "\<exists>r w'. disk_state_save_to_disk X w = Inr (r, w') \<and> sr_state w' = Some st \<and>
           (sr_disk_state w \<noteq> None \<longrightarrow> sr_disk_state w' = Some (disk_state_update X st))"
  using assms
  by (auto simp: disk_state_save_to_disk_def Let_def split: option.splits)

lemma sr_state_add_commit_fresh:
  assumes "sr_state w = Some st"
    and "map_of (commits st) (digestmap_key X (rsa_identity_fpr c)) = None"
  shows "\<exists>w'. sr_state_add_commit X c w = Inr w' \<and>
           sr_state w' =
             Some (st\<lparr>commits := commits st @ [(digestmap_key X (rsa_identity_fpr c), c)]\<rparr>)"
proof -
  let ?st' = "st\<lparr>commits := commits st @ [(digestmap_key X (rsa_identity_fpr c), c)]\<rparr>"
  obtain r w' where s: "disk_state_save_to_disk X (w\<lparr>sr_state := Some ?st'\<rparr>) = Inr (r, w')"
    and w': "sr_state w' = Some ?st'"
    using disk_state_save_to_disk_state [of "w\<lparr>sr_state := Some ?st'\<rparr>" ?st' X] by auto
  have "sr_state_add_commit X c w = Inr w'"
    using assms s
    by (simp add: sr_state_add_commit_def state_query_def state_query_put_def
        commit_add_to_state_fresh)
  then show ?thesis
    using w' by simp
qed

lemma sr_state_add_commit_present:
  assumes "sr_state w = Some st"
    and "map_of (commits st) (digestmap_key X (rsa_identity_fpr c)) \<noteq> None"
  shows "sr_state_add_commit X c w = Inl AssertionFailed"
  using assms
  by (simp add: sr_state_add_commit_def state_query_def state_query_put_def
      commit_add_to_state_present)

text \<open>
  C7 (amended).  Adding a commit through \<open>sr_state_add_commit\<close> when the state holds no
  commit under the authority's RSA fingerprint (as the digest map keys it) stores the
  commit under that key.  Adding a commit when the state already holds one under that
  key, the identical commit included, is not idempotent: \<open>commit_add_to_state\<close> fails its
  assertion \<open>saved_commit == NULL\<close>.
\<close>

theorem sr_state_add_commit_once:
  assumes "sr_state w = Some st"
  shows "(map_of (commits st) (digestmap_key X (rsa_identity_fpr c)) = None \<longrightarrow>
            (case sr_state_add_commit X c w of
               Inl e \<Rightarrow> False
             | Inr w' \<Rightarrow>
                 sr_state w' =
                   Some (st\<lparr>commits :=
                     commits st @ [(digestmap_key X (rsa_identity_fpr c), c)]\<rparr>))) \<and>
         (map_of (commits st) (digestmap_key X (rsa_identity_fpr c)) \<noteq> None \<longrightarrow>
            sr_state_add_commit X c w = Inl AssertionFailed)"
  using sr_state_add_commit_fresh [OF assms, of X c] sr_state_add_commit_present [OF assms, of X c]
  by auto

lemma example_world_state: "sr_state example_world = Some example_state"
  by (simp add: example_world_def)

lemma example_state_commits: "commits example_state = []"
  by (simp add: example_state_def)

theorem sr_state_add_commit_once_witness:
  "(case sr_state_add_commit example_ext (example_commit ''AAAA'' ''r1'') example_world of
      Inl e \<Rightarrow> False
    | Inr w' \<Rightarrow>
        sr_state w' =
          Some (example_state\<lparr>commits := [(''AAAA'', example_commit ''AAAA'' ''r1'')]\<rparr>)) \<and>
   sr_state_add_commit example_ext (example_commit ''AAAA'' ''r1'')
     (example_world\<lparr>sr_state :=
        Some (example_state\<lparr>commits := [(''AAAA'', example_commit ''AAAA'' ''r1'')]\<rparr>)\<rparr>) =
     Inl AssertionFailed"
proof -
  let ?c = "example_commit ''AAAA'' ''r1''"
  let ?st1 = "example_state\<lparr>commits := [(''AAAA'', ?c)]\<rparr>"
  have k: "digestmap_key example_ext (rsa_identity_fpr ?c) = ''AAAA''"
    by (simp add: example_ext_def example_commit_def)
  have 1: "map_of (commits example_state) (digestmap_key example_ext (rsa_identity_fpr ?c)) = None"
    by (simp add: example_state_commits)
  have 2: "map_of (commits ?st1) (digestmap_key example_ext (rsa_identity_fpr ?c)) \<noteq> None"
    by (simp add: k)
  have 3: "sr_state (example_world\<lparr>sr_state := Some ?st1\<rparr>) = Some ?st1"
    by simp
  show ?thesis
    using sr_state_add_commit_once [OF example_world_state, of example_ext ?c]
      sr_state_add_commit_once [OF 3, of example_ext ?c] 1 2
    by (auto simp: k example_state_commits split: sum.splits)
qed

text \<open>
  C7 as stated fails: the commit is ingested once into a state without commits, and
  ingesting the identical commit again into the resulting state stops at the assertion
  instead of leaving the state as it is.
\<close>

theorem sr_state_add_commit_twice_counterexample:
  "(case sr_state_add_commit example_ext (example_commit ''AAAA'' ''r1'') example_world of
      Inl e \<Rightarrow> False
    | Inr w' \<Rightarrow>
        sr_state_add_commit example_ext (example_commit ''AAAA'' ''r1'') w' =
          Inl AssertionFailed)"
proof -
  let ?c = "example_commit ''AAAA'' ''r1''"
  let ?k = "digestmap_key example_ext (rsa_identity_fpr ?c)"
  let ?st1 = "example_state\<lparr>commits := commits example_state @ [(?k, ?c)]\<rparr>"
  have 1: "map_of (commits example_state) ?k = None"
    by (simp add: example_state_commits)
  obtain w' where a: "sr_state_add_commit example_ext ?c example_world = Inr w'"
    and s: "sr_state w' = Some ?st1"
    using sr_state_add_commit_fresh [OF example_world_state 1] by auto
  have 2: "map_of (commits ?st1) ?k \<noteq> None"
    by simp
  have "sr_state_add_commit example_ext ?c w' = Inl AssertionFailed"
    by (rule sr_state_add_commit_present [OF s 2])
  then show ?thesis
    by (simp add: a)
qed

section \<open>Theorems: loading the state file\<close>

lemma division_traps_pos: "0 < b \<Longrightarrow> \<not> division_traps a b"
  by (simp add: division_traps_def)

lemma get_sr_protocol_phase_ok:
  "0 < get_voting_interval X \<Longrightarrow> \<exists>p. get_sr_protocol_phase X t = Inr p"
  by (simp add: get_sr_protocol_phase_def Let_def division_traps_pos)

lemma get_state_valid_until_time_ok:
  "0 < get_voting_interval X \<Longrightarrow> \<exists>v. get_state_valid_until_time X t = Inr v"
  by (simp add: get_state_valid_until_time_def Let_def division_traps_pos)

lemma state_new_ok:
  assumes "0 < get_voting_interval X"
  shows "\<exists>st. state_new X name now = Inr st \<and> commits st = []"
proof -
  obtain p where p: "get_sr_protocol_phase X (get_next_valid_after_time X now) = Inr p"
    using get_sr_protocol_phase_ok [OF assms] by blast
  obtain v where v: "get_state_valid_until_time X (get_next_valid_after_time X now) = Inr v"
    using get_state_valid_until_time_ok [OF assms] by blast
  show ?thesis by (simp add: state_new_def Let_def p v)
qed

lemma disk_state_new_ok:
  assumes "0 < get_voting_interval X"
  shows "\<exists>ds. disk_state_new X now = Inr ds"
proof -
  obtain v where v: "get_state_valid_until_time X now = Inr v"
    using get_state_valid_until_time_ok [OF assms] by blast
  show ?thesis by (simp add: disk_state_new_def v)
qed

lemma disk_state_parse_srv_code:
  "fst (disk_state_parse_srv X v dst) =
     (if srv_line_fails X \<lparr>cl_key = k, cl_value = Some v\<rparr> then - 1 else 0)"
  by (simp add: disk_state_parse_srv_def srv_line_fails_def sr_parse_srv_def Let_def
      case_prod_beta split: option.splits)

lemma srv_line_fails_value:
  "cl_value line = Some v \<Longrightarrow>
   srv_line_fails X line = srv_line_fails X \<lparr>cl_key = k, cl_value = Some v\<rparr>"
  by (simp add: srv_line_fails_def)

lemma disk_state_parse_sr_values_lines_code:
  "fst (disk_state_parse_sr_values_lines X st lines) =
     (if \<exists>l \<in> set lines. srv_line_fails X l then - 1 else 0)"
proof (induction lines arbitrary: st)
  case Nil
  then show ?case by simp
next
  case (Cons line rest)
  show ?case
  proof (cases "cl_value line")
    case None
    then show ?thesis
      using Cons.IH by (simp add: srv_line_fails_def)
  next
    case (Some v)
    obtain r srv where p: "disk_state_parse_srv X v zero_srv = (r, srv)"
      by (cases "disk_state_parse_srv X v zero_srv")
    have r: "r = (if srv_line_fails X line then - 1 else 0)"
      using disk_state_parse_srv_code [of X v zero_srv "cl_key line"] p
        srv_line_fails_value [OF Some, of X "cl_key line"]
      by simp
    show ?thesis
      using Some p r Cons.IH by auto
  qed
qed

lemma disk_state_parse_sr_values_lines_commits:
  "commits (snd (disk_state_parse_sr_values_lines X st lines)) = commits st"
  by (induction lines arbitrary: st) (auto split: option.splits prod.splits)

lemma commit_decode_code:
  "fst (commit_decode X encoded c) = (if commit_blob_malformed X encoded then - 1 else 0)"
  "rsa_identity_fpr (snd (commit_decode X encoded c)) = rsa_identity_fpr c"
  by (auto simp add: commit_decode_def commit_blob_malformed_def split: option.splits)

lemma reveal_decode_code:
  "fst (reveal_decode X encoded c) = (if reveal_blob_malformed X encoded then - 1 else 0)"
  "rsa_identity_fpr (snd (reveal_decode X encoded c)) = rsa_identity_fpr c"
  by (auto simp add: reveal_decode_def reveal_blob_malformed_def split: option.splits)

lemma sr_parse_commit_None_iff:
  "sr_parse_commit X args = None \<longleftrightarrow>
     length args < 4 \<or>
     crypto_digest_algorithm_parse_name X (args ! 0) \<noteq> Some SR_DIGEST_ALG \<or>
     ed25519_public_from_base64 X (args ! 1) = None \<or>
     commit_blob_malformed X (args ! 3) \<or>
     (4 < length args \<and> reveal_blob_malformed X (args ! 4))"
  using commit_decode_code(1) reveal_decode_code(1)
  by (auto simp add: sr_parse_commit_def Let_def case_prod_beta split: option.splits)

lemma sr_parse_commit_fpr:
  "sr_parse_commit X args = Some c \<Longrightarrow>
   rsa_identity_fpr c = take (FINGERPRINT_LEN X) (args ! 2)"
  by (auto simp add: sr_parse_commit_def Let_def case_prod_beta commit_decode_code(2)
      reveal_decode_code(2) commit_new_def split: option.splits if_splits)


lemma map_of_None_keys: "k \<notin> set (map fst m) \<Longrightarrow> map_of m k = None"
  by (simp add: map_of_eq_None_iff)

lemma parse_commits_line_skipped:
  "commit_line_skipped X l \<Longrightarrow>
   disk_state_parse_commits_lines X st (l # rest) = disk_state_parse_commits_lines X st rest"
  by (simp add: commit_line_skipped_def)

lemma parse_commits_line_fails:
  assumes "commit_line_fails X l"
  shows "disk_state_parse_commits_lines X st (l # rest) = Inr (- 1, st)"
proof -
  let ?args = "smartlist_split_string X (the (cl_value l))"
  from assms have ns: "\<not> (strcasecmp X (cl_key l) dstate_commit_key \<noteq> 0 \<or> cl_value l = None)"
    by (simp add: commit_line_fails_def commit_line_skipped_def)
  from assms have "sr_parse_commit X ?args = None"
    unfolding sr_parse_commit_None_iff by (simp add: commit_line_fails_def Let_def)
  then show ?thesis using ns by (auto simp add: Let_def)
qed

lemma parse_commits_line_stored:
  assumes ns: "\<not> commit_line_skipped X l" and nf: "\<not> commit_line_fails X l"
    and fresh: "commit_line_key X l \<notin> set (map fst (commits st))"
  shows "\<exists>c. disk_state_parse_commits_lines X st (l # rest) =
           disk_state_parse_commits_lines X
             (st\<lparr>commits := commits st @ [(commit_line_key X l, c)]\<rparr>) rest"
proof -
  let ?args = "smartlist_split_string X (the (cl_value l))"
  from ns have ns': "\<not> (strcasecmp X (cl_key l) dstate_commit_key \<noteq> 0 \<or> cl_value l = None)"
    by (simp add: commit_line_skipped_def)
  from ns nf have m: "\<not> (length ?args < 4 \<or>
     crypto_digest_algorithm_parse_name X (?args ! 0) \<noteq> Some SR_DIGEST_ALG \<or>
     ed25519_public_from_base64 X (?args ! 1) = None \<or>
     commit_blob_malformed X (?args ! 3) \<or>
     (4 < length ?args \<and> reveal_blob_malformed X (?args ! 4)))"
    by (simp add: commit_line_fails_def Let_def)
  then have "sr_parse_commit X ?args \<noteq> None"
    unfolding sr_parse_commit_None_iff by blast
  then obtain c where c: "sr_parse_commit X ?args = Some c" by auto
  have l: "\<not> length ?args < 3" using m by auto
  have k: "digestmap_key X (rsa_identity_fpr c) = commit_line_key X l"
    using sr_parse_commit_fpr [OF c] by (simp add: commit_line_key_def)
  have "map_of (commits st) (digestmap_key X (rsa_identity_fpr c)) = None"
    unfolding k using fresh by (rule map_of_None_keys)
  then have a: "commit_add_to_state X c (Some st) =
      Inr (st\<lparr>commits := commits st @ [(commit_line_key X l, c)]\<rparr>)"
    using commit_add_to_state_fresh [of st X c] by (simp add: k)
  have "disk_state_parse_commits_lines X st (l # rest) =
      disk_state_parse_commits_lines X
        (st\<lparr>commits := commits st @ [(commit_line_key X l, c)]\<rparr>) rest"
    using ns' l c a by (auto simp add: Let_def)
  then show ?thesis by blast
qed

lemma parse_commits_prefix:
  assumes "\<forall>l \<in> set before. \<not> commit_line_fails X l"
    and "distinct (map fst (commits st) @
           map (commit_line_key X) (filter (\<lambda>l. \<not> commit_line_skipped X l) before))"
  shows "\<exists>st'. disk_state_parse_commits_lines X st (before @ rest) =
           disk_state_parse_commits_lines X st' rest"
  using assms
proof (induction before arbitrary: st)
  case Nil
  then show ?case by auto
next
  case (Cons l before)
  show ?case
  proof (cases "commit_line_skipped X l")
    case True
    have "\<exists>st'. disk_state_parse_commits_lines X st (before @ rest) =
           disk_state_parse_commits_lines X st' rest"
      using Cons.prems True by (intro Cons.IH) auto
    then show ?thesis
      using parse_commits_line_skipped [OF True, of st "before @ rest"] by simp
  next
    case False
    have nf: "\<not> commit_line_fails X l" using Cons.prems(1) by simp
    have fresh: "commit_line_key X l \<notin> set (map fst (commits st))"
      using Cons.prems(2) False by auto
    from parse_commits_line_stored [OF False nf fresh, of "before @ rest"]
    obtain c where c: "disk_state_parse_commits_lines X st (l # before @ rest) =
        disk_state_parse_commits_lines X
          (st\<lparr>commits := commits st @ [(commit_line_key X l, c)]\<rparr>) (before @ rest)"
      by blast
    have "\<exists>st'. disk_state_parse_commits_lines X
          (st\<lparr>commits := commits st @ [(commit_line_key X l, c)]\<rparr>) (before @ rest) =
        disk_state_parse_commits_lines X st' rest"
      using Cons.prems False by (intro Cons.IH) auto
    then show ?thesis using c by simp
  qed
qed

lemma parse_commits_rejected:
  assumes e: "commits st = []" and r: "commit_lines_rejected X lines"
  shows "\<exists>st'. disk_state_parse_commits_lines X st lines = Inr (- 1, st')"
proof -
  let ?P = "\<lambda>l. \<not> commit_line_fails X l"
  let ?before = "takeWhile ?P lines"
  let ?rest = "dropWhile ?P lines"
  from r have len: "length ?before < length lines"
    and d: "distinct (map (commit_line_key X)
              (filter (\<lambda>l. \<not> commit_line_skipped X l) ?before))"
    by (simp_all add: commit_lines_rejected_def Let_def)
  have ne: "?rest \<noteq> []"
    using len by (metis takeWhile_dropWhile_id append_Nil2 less_irrefl)
  then obtain l post where lp: "?rest = l # post" by (cases ?rest) auto
  have f: "commit_line_fails X l"
    using hd_dropWhile [OF ne] lp by simp
  have b: "\<forall>l \<in> set ?before. \<not> commit_line_fails X l"
    by (auto dest: set_takeWhileD)
  have "distinct (map fst (commits st) @
      map (commit_line_key X) (filter (\<lambda>l. \<not> commit_line_skipped X l) ?before))"
    using d e by simp
  from parse_commits_prefix [OF b this, of "l # post"]
  obtain st' where p: "disk_state_parse_commits_lines X st (?before @ l # post) =
      disk_state_parse_commits_lines X st' (l # post)"
    by blast
  have "lines = ?before @ l # post"
    using takeWhile_dropWhile_id [of ?P lines] lp by simp
  then have "disk_state_parse_commits_lines X st lines =
      disk_state_parse_commits_lines X st (?before @ l # post)"
    by (rule arg_cong)
  also have "\<dots> = Inr (- 1, st')"
    unfolding p by (rule parse_commits_line_fails [OF f])
  finally show ?thesis by blast
qed

lemma disk_state_parse_rejects:
  assumes i: "0 < get_voting_interval X"
    and rej: "(\<exists>l \<in> set (SharedRandValues ds). srv_line_fails X l) \<or>
      commit_lines_rejected X (Commits ds)"
  shows "disk_state_parse X ds = Inr None"
proof -
  obtain st where sn: "state_new X (Some default_fname) (time_now X) = Inr st"
    and sc: "commits st = []"
    using state_new_ok [OF i] by blast
  let ?st0 = "st\<lparr>version := Version ds, valid_until := ValidUntil ds,
    valid_after := ValidAfter ds\<rparr>"
  obtain r st1 where p: "disk_state_parse_sr_values_lines X ?st0 (SharedRandValues ds) = (r, st1)"
    by (cases "disk_state_parse_sr_values_lines X ?st0 (SharedRandValues ds)")
  have rv: "r = (if \<exists>l \<in> set (SharedRandValues ds). srv_line_fails X l then - 1 else 0)"
    using disk_state_parse_sr_values_lines_code [of X ?st0 "SharedRandValues ds"] p
    by (simp only: fst_conv)
  have u: "disk_state_parse X ds =
      (if r < 0 then Inr None
       else case disk_state_parse_commits_lines X st1 (Commits ds) of
              Inl e \<Rightarrow> Inl e
            | Inr (r, new_state) \<Rightarrow> if r < 0 then Inr None else Inr (Some new_state))"
    unfolding disk_state_parse_def disk_state_parse_sr_values_def disk_state_parse_commits_def
      sn Let_def sum.case p
    by (simp only: prod.case)
  show ?thesis
  proof (cases "\<exists>l \<in> set (SharedRandValues ds). srv_line_fails X l")
    case True
    then have "r < 0"
      using rv by simp
    then show ?thesis
      unfolding u by simp
  next
    case False
    with rej have c: "commit_lines_rejected X (Commits ds)" by auto
    have r: "r = 0"
      using rv False by simp
    have "commits st1 = commits ?st0"
      using disk_state_parse_sr_values_lines_commits [of X ?st0 "SharedRandValues ds"] p
      by (simp only: snd_conv)
    then have "commits st1 = []"
      by (simp add: sc)
    from parse_commits_rejected [OF this c] obtain st2 where
      "disk_state_parse_commits_lines X st1 (Commits ds) = Inr (- 1, st2)"
      by auto
    then show ?thesis
      unfolding u using r by simp
  qed
qed

lemma disk_state_load_rejects:
  assumes i: "0 < get_voting_interval X"
    and "disk_state_of_file X name = Some ds" and "state_file_rejected X ds"
  shows "disk_state_load_from_disk_impl X name w = Inr (RetNeg EINVAL, w)"
proof -
  obtain ds0 content lines where f: "file_status X name = FN_FILE"
    and n: "disk_state_new X (time_now X) = Inr ds0"
    and c: "read_file_to_str X name = Some content"
    and l: "config_get_lines X content = Some lines"
    and a: "config_assign X ds0 lines = (None, ds)"
    using assms(2)
    by (auto simp: disk_state_of_file_def
        split: file_status_t.splits option.splits prod.splits sum.splits)
  show ?thesis
  proof (cases "disk_state_validate X ds < 0")
    case True
    then show ?thesis
      using f n c l a by (simp add: disk_state_load_from_disk_impl_def Let_def)
  next
    case False
    then have "\<not> (Version ds > int SR_PROTO_VERSION \<or> ValidUntil ds < time_now X \<or>
      ValidAfter ds \<ge> ValidUntil ds)"
      by (auto simp: disk_state_validate_def split: if_splits)
    with assms(3) have "disk_state_parse X ds = Inr None"
      by (intro disk_state_parse_rejects [OF i]) (auto simp: state_file_rejected_def)
    then show ?thesis
      using f n c l a False by (simp add: disk_state_load_from_disk_impl_def Let_def)
  qed
qed

lemma sr_state_init_rejected:
  assumes "sr_state w = None" and "sr_disk_state w = None"
    and i: "0 < get_voting_interval X"
    and "disk_state_of_file X (get_datadir_fname X default_fname) = Some ds"
    and "state_file_rejected X ds"
  shows "\<exists>new_state new_disk_state.
           state_new X (Some default_fname) (time_now X) = Inr new_state \<and>
           disk_state_new X (time_now X) = Inr new_disk_state \<and>
           disk_state_load_from_disk X w = Inr (RetNeg EINVAL, w) \<and>
           sr_state_init X save_to_disk True w =
             (let fresh = w\<lparr>sr_state := Some new_state,
                             sr_disk_state := Some new_disk_state\<rparr>;
                  saved = fresh\<lparr>sr_disk_state := Some (disk_state_update X new_state)\<rparr>;
                  name = get_datadir_fname X default_fname;
                  content = state_file_banner (format_local_iso_time X (time_now X)) @
                            config_dump X (disk_state_update X new_state)
              in if \<not> save_to_disk then Inr (0, fresh)
                 else if write_str_to_file X name content < 0 then Inr (- 1, saved)
                 else Inr (0, saved\<lparr>written := Some (name, content)\<rparr>))"
proof -
  obtain st where sn: "state_new X (Some default_fname) (time_now X) = Inr st"
    using state_new_ok [OF i] by blast
  obtain dn where dn: "disk_state_new X (time_now X) = Inr dn"
    using disk_state_new_ok [OF i] by blast
  have l: "disk_state_load_from_disk X w = Inr (RetNeg EINVAL, w)"
    unfolding disk_state_load_from_disk_def
    by (rule disk_state_load_rejects [OF i assms(4,5)])
  have "sr_state_init X save_to_disk True w =
             (let fresh = w\<lparr>sr_state := Some st, sr_disk_state := Some dn\<rparr>;
                  saved = fresh\<lparr>sr_disk_state := Some (disk_state_update X st)\<rparr>;
                  name = get_datadir_fname X default_fname;
                  content = state_file_banner (format_local_iso_time X (time_now X)) @
                            config_dump X (disk_state_update X st)
              in if \<not> save_to_disk then Inr (0, fresh)
                 else if write_str_to_file X name content < 0 then Inr (- 1, saved)
                 else Inr (0, saved\<lparr>written := Some (name, content)\<rparr>))"
    using assms(1,2)
    by (simp add: sr_state_init_def l sn dn Let_def disk_state_save_to_disk_def)
  then show ?thesis using sn dn l by blast
qed


text \<open>
  C5 (amended).  With a positive voting interval, a persisted SR state file that can be
  read is rejected on load (\<open>-EINVAL\<close>, the globals untouched) if its version is greater
  than the supported protocol version, if its valid_until time is before now, if its
  valid_after is not strictly earlier than its valid_until, if an SRV line has fewer than
  two tokens or a count that is not an integer between 0 and \<open>INT32_MAX\<close> (the value token
  is not checked), or if a Commit line fails the structural checks, the Commit lines
  before the first such line being stored under keys that differ.  Rejection is not fatal
  by itself: \<open>sr_state_init\<close> installs a fresh in-memory state; it writes that state to
  disk only when \<open>save_to_disk\<close> is set, and then returns 0 when the write succeeds and -1
  when it fails.
\<close>

theorem sr_state_init_rejected_state_file:
  assumes "sr_state w = None" and "sr_disk_state w = None"
    and "0 < get_voting_interval X"
    and "disk_state_of_file X (get_datadir_fname X default_fname) = Some ds"
    and "state_file_rejected X ds"
  shows "\<exists>new_state new_disk_state.
           state_new X (Some default_fname) (time_now X) = Inr new_state \<and>
           disk_state_new X (time_now X) = Inr new_disk_state \<and>
           disk_state_load_from_disk X w = Inr (RetNeg EINVAL, w) \<and>
           sr_state_init X save_to_disk True w =
             (let fresh = w\<lparr>sr_state := Some new_state,
                             sr_disk_state := Some new_disk_state\<rparr>;
                  saved = fresh\<lparr>sr_disk_state := Some (disk_state_update X new_state)\<rparr>;
                  name = get_datadir_fname X default_fname;
                  content = state_file_banner (format_local_iso_time X (time_now X)) @
                            config_dump X (disk_state_update X new_state)
              in if \<not> save_to_disk then Inr (0, fresh)
                 else if write_str_to_file X name content < 0 then Inr (- 1, saved)
                 else Inr (0, saved\<lparr>written := Some (name, content)\<rparr>))"
  by (rule sr_state_init_rejected [OF assms])

lemma wrap_small: "wrap_int 24 = 24" "wrap_int 14 = 14" "wrap_int 13 = 13" "wrap_int 10 = 10"
  "wrap_int 11 = 11" "wrap_int 36000 = 36000" "wrap_int 39600 = 39600"
  "wrap_time_t 1000799 = 1000799" "wrap_time_t 1000800 = 1000800"
  "wrap_time_t 1036800 = 1036800" "wrap_time_t 997199 = 997199" "wrap_time_t 997200 = 997200"
  by (simp_all add: wrap_int_def wrap_time_t_def)

lemma example_clock:
  assumes "get_voting_interval X = 3600" and "TestingV3AuthVotingStartOffset X = 0"
    and "\<And>t. voting_schedule_interval_starts X t = (t div 3600 + 1) * 3600"
    and "\<And>a b c. dirvote_get_start_of_next_interval X a b c = (a div b + 1) * b"
    and "\<And>t. get_next_valid_after_time X t = (t div 3600 + 1) * 3600"
    and "\<And>ds. config_init X ds = ds"
  shows "state_new X (Some default_fname) 1000000 = Inr example_state"
    and "disk_state_new X 1000000 = Inr example_new_disk_state"
  by (simp_all add: assms state_new_def disk_state_new_def get_sr_protocol_phase_def
      get_state_valid_until_time_def get_start_time_of_current_round_def division_traps_def
      c_div_def c_mod_def SHARED_RANDOM_N_ROUNDS_def SHARED_RANDOM_N_PHASES_def
      example_state_def example_new_disk_state_def SR_PROTO_VERSION_def Let_def wrap_small)

lemma example_ext_fields:
  assumes "X = example_ext\<lparr>config_assign := ca, write_str_to_file := ws\<rparr>"
  shows "time_now X = 1000000" and "get_voting_interval X = 3600"
    and "file_status X n = FN_FILE" and "read_file_to_str X n = Some []"
    and "config_get_lines X c = Some []" and "config_assign X = ca"
    and "write_str_to_file X = ws"
    and "get_datadir_fname X f = ''/var/lib/tor/'' @ f"
    and "format_local_iso_time X t = ''1970-01-12 13:46:40''"
    and "config_dump X ds = ''Version '' @ example_format_d (Version ds)"
    and "smartlist_split_string X = split_spaces []"
    and "strcasecmp X = example_strcasecmp"
    and "state_new X (Some default_fname) 1000000 = Inr example_state"
    and "disk_state_new X 1000000 = Inr example_new_disk_state"
proof -
  show "time_now X = 1000000" and "get_voting_interval X = 3600"
    and "file_status X n = FN_FILE" and "read_file_to_str X n = Some []"
    and "config_get_lines X c = Some []" and "config_assign X = ca"
    and "write_str_to_file X = ws"
    and "get_datadir_fname X f = ''/var/lib/tor/'' @ f"
    and "format_local_iso_time X t = ''1970-01-12 13:46:40''"
    and "config_dump X ds = ''Version '' @ example_format_d (Version ds)"
    and "smartlist_split_string X = split_spaces []"
    and "strcasecmp X = example_strcasecmp"
    by (simp_all add: assms example_ext_def)
  show "state_new X (Some default_fname) 1000000 = Inr example_state"
    by (rule example_clock) (simp_all add: assms example_ext_def)
  show "disk_state_new X 1000000 = Inr example_new_disk_state"
    by (rule example_clock) (simp_all add: assms example_ext_def)
qed

lemma example_bad_ext_eq:
  "example_bad_ext =
     example_ext\<lparr>config_assign := (\<lambda>ds lines. (None, example_bad_disk_state)),
                  write_str_to_file := (\<lambda>name content. 0)\<rparr>"
  "example_bad_commits_ext =
     example_ext\<lparr>config_assign := (\<lambda>ds lines. (None, example_bad_commits_disk_state)),
                  write_str_to_file := (\<lambda>name content. 0)\<rparr>"
  "example_bad_ext\<lparr>write_str_to_file := (\<lambda>name content. - 1)\<rparr> =
     example_ext\<lparr>config_assign := (\<lambda>ds lines. (None, example_bad_disk_state)),
                  write_str_to_file := (\<lambda>name content. - 1)\<rparr>"
  by (simp_all add: example_bad_ext_def example_bad_commits_ext_def example_ext_def)

lemmas bad_fields = example_ext_fields [OF example_bad_ext_eq(1)]
lemmas bad_commits_fields = example_ext_fields [OF example_bad_ext_eq(2)]
lemmas bad_write_fields = example_ext_fields [OF example_bad_ext_eq(3)]

lemma example_bad_file:
  "disk_state_of_file example_bad_ext (get_datadir_fname example_bad_ext default_fname) =
     Some example_bad_disk_state"
  "disk_state_of_file example_bad_commits_ext
     (get_datadir_fname example_bad_commits_ext default_fname) =
     Some example_bad_commits_disk_state"
  "disk_state_of_file (example_bad_ext\<lparr>write_str_to_file := (\<lambda>name content. - 1)\<rparr>)
     (get_datadir_fname (example_bad_ext\<lparr>write_str_to_file := (\<lambda>name content. - 1)\<rparr>)
        default_fname) =
     Some example_bad_disk_state"
  unfolding disk_state_of_file_def
  by (simp_all only: bad_fields bad_commits_fields bad_write_fields file_status_t.case
      sum.case option.case prod.case)

lemma example_bad_srv_line:
  "srv_line_fails X \<lparr>cl_key = dstate_cur_srv_key, cl_value = Some ''3''\<rparr>"
  if "smartlist_split_string X = split_spaces []"
  using that by (simp add: srv_line_fails_def)

lemma example_bad_rejected:
  "state_file_rejected example_bad_ext example_bad_disk_state"
  "state_file_rejected (example_bad_ext\<lparr>write_str_to_file := (\<lambda>name content. - 1)\<rparr>)
     example_bad_disk_state"
  by (simp_all add: state_file_rejected_def example_bad_disk_state_def example_bad_srv_line
      bad_fields bad_write_fields)

text \<open>
  The value token of an SRV line is not checked by the loader: \<open>sr_parse_srv\<close> ignores the
  result of \<open>base16_decode\<close>, so a line whose second token is not a base-16 value passes.
\<close>

lemma example_srv_value_unchecked:
  "\<not> srv_line_fails example_bad_ext \<lparr>cl_key = dstate_cur_srv_key, cl_value = Some ''3 zz''\<rparr>"
proof -
  have "tor_parse_long example_bad_ext = example_tor_parse_long"
    by (simp add: example_bad_ext_def example_ext_def)
  then show ?thesis
    by (simp add: srv_line_fails_def bad_fields example_tor_parse_long_def digit_of_char_def
        INT32_MAX_def)
qed

lemma example_bad_commits_rejected:
  "state_file_rejected example_bad_commits_ext example_bad_commits_disk_state"
proof -
  have "commit_line_fails example_bad_commits_ext
      \<lparr>cl_key = dstate_commit_key, cl_value = Some ''sha3-256 KEYA''\<rparr>"
    by (simp add: commit_line_fails_def commit_line_skipped_def bad_commits_fields
        example_strcasecmp_def strcmp_def Let_def)
  then have "commit_lines_rejected example_bad_commits_ext
      (Commits example_bad_commits_disk_state)"
    by (simp add: commit_lines_rejected_def example_bad_commits_disk_state_def)
  then show ?thesis by (simp add: state_file_rejected_def)
qed

lemma empty_world_globals: "sr_state empty_world = None" "sr_disk_state empty_world = None"
  by (simp_all add: empty_world_def)

lemma example_dump: "example_format_d (Version (disk_state_update X example_state)) = ''1''"
  by (simp add: disk_state_update_def example_state_def example_format_d_def)

theorem sr_state_init_rejected_state_file_witness:
  "0 < get_voting_interval example_bad_ext \<and>
   Version example_bad_disk_state = 1 \<and>
   time_now example_bad_ext \<le> ValidUntil example_bad_disk_state \<and>
   ValidAfter example_bad_disk_state < ValidUntil example_bad_disk_state \<and>
   disk_state_load_from_disk example_bad_ext empty_world = Inr (RetNeg EINVAL, empty_world) \<and>
   sr_state_init example_bad_ext True True empty_world =
     Inr (0,
       \<lparr>sr_state = Some example_state,
        sr_disk_state = Some (disk_state_update example_bad_ext example_state),
        written =
          Some (''/var/lib/tor/sr-state'',
                state_file_banner ''1970-01-12 13:46:40'' @ ''Version 1'')\<rparr>) \<and>
   disk_state_load_from_disk example_bad_commits_ext empty_world =
     Inr (RetNeg EINVAL, empty_world)"
proof -
  have i: "0 < get_voting_interval example_bad_ext"
    "0 < get_voting_interval example_bad_commits_ext"
    by (simp_all add: bad_fields bad_commits_fields)
  have d: "Version example_bad_disk_state = 1"
    "time_now example_bad_ext \<le> ValidUntil example_bad_disk_state"
    "ValidAfter example_bad_disk_state < ValidUntil example_bad_disk_state"
    by (simp_all add: example_bad_disk_state_def example_disk_state_def bad_fields)
  from sr_state_init_rejected_state_file
    [OF empty_world_globals i(1) example_bad_file(1) example_bad_rejected(1), of True]
  obtain ns nd where
    1: "state_new example_bad_ext (Some default_fname) (time_now example_bad_ext) = Inr ns"
    and 2: "disk_state_new example_bad_ext (time_now example_bad_ext) = Inr nd"
    and a: "disk_state_load_from_disk example_bad_ext empty_world =
      Inr (RetNeg EINVAL, empty_world)"
    and b0: "sr_state_init example_bad_ext True True empty_world =
      (let fresh = empty_world\<lparr>sr_state := Some ns, sr_disk_state := Some nd\<rparr>;
           saved = fresh\<lparr>sr_disk_state := Some (disk_state_update example_bad_ext ns)\<rparr>;
           name = get_datadir_fname example_bad_ext default_fname;
           content = state_file_banner
                       (format_local_iso_time example_bad_ext (time_now example_bad_ext)) @
                     config_dump example_bad_ext (disk_state_update example_bad_ext ns)
       in if \<not> True then Inr (0, fresh)
          else if write_str_to_file example_bad_ext name content < 0 then Inr (- 1, saved)
          else Inr (0, saved\<lparr>written := Some (name, content)\<rparr>))"
    by blast
  have ns: "ns = example_state" using 1 by (simp add: bad_fields)
  have b: "sr_state_init example_bad_ext True True empty_world =
     Inr (0,
       \<lparr>sr_state = Some example_state,
        sr_disk_state = Some (disk_state_update example_bad_ext example_state),
        written =
          Some (''/var/lib/tor/sr-state'',
                state_file_banner ''1970-01-12 13:46:40'' @ ''Version 1'')\<rparr>)"
    unfolding b0 ns
    by (simp add: bad_fields example_dump Let_def empty_world_def default_fname_def)
  from sr_state_init_rejected_state_file
    [OF empty_world_globals i(2) example_bad_file(2) example_bad_commits_rejected, of True]
  have c: "disk_state_load_from_disk example_bad_commits_ext empty_world =
      Inr (RetNeg EINVAL, empty_world)"
    by blast
  show ?thesis using a b c d i(1) by simp
qed

text \<open>
  C5 as stated fails: the file with the one-token SRV line is rejected, and with
  \<open>save_to_disk\<close> unset the fresh state is not written; with \<open>save_to_disk\<close> set and a
  write that fails, \<open>sr_state_init\<close> fails with -1.
\<close>

theorem sr_state_init_rejected_state_file_counterexample:
  "state_file_rejected example_bad_ext example_bad_disk_state \<and>
   map_sum id (\<lambda>(r, w). (r, written w))
     (sr_state_init example_bad_ext False True empty_world) = Inr (0, None) \<and>
   map_sum id fst
     (sr_state_init (example_bad_ext\<lparr>write_str_to_file := (\<lambda>name content. - 1)\<rparr>)
        True True empty_world) = Inr (- 1)"
proof -
  let ?X = "example_bad_ext\<lparr>write_str_to_file := (\<lambda>name content. - 1)\<rparr>"
  have i: "0 < get_voting_interval example_bad_ext" "0 < get_voting_interval ?X"
    by (simp_all add: bad_fields bad_write_fields)
  from sr_state_init_rejected
    [OF empty_world_globals i(1) example_bad_file(1) example_bad_rejected(1), of False]
  obtain ns nd where "sr_state_init example_bad_ext False True empty_world =
      Inr (0, empty_world\<lparr>sr_state := Some ns, sr_disk_state := Some nd\<rparr>)"
    by (auto simp add: Let_def)
  then have a: "map_sum id (\<lambda>(r, w). (r, written w))
     (sr_state_init example_bad_ext False True empty_world) = Inr (0, None)"
    by (simp add: empty_world_def)
  from sr_state_init_rejected
    [OF empty_world_globals i(2) example_bad_file(3) example_bad_rejected(2), of True]
  obtain ns' nd' where "sr_state_init ?X True True empty_world =
      Inr (- 1, empty_world\<lparr>sr_state := Some ns',
                 sr_disk_state := Some (disk_state_update ?X ns')\<rparr>)"
    by (auto simp add: Let_def bad_write_fields(7))
  then have b: "map_sum id fst (sr_state_init ?X True True empty_world) = Inr (- 1)"
    by simp
  show ?thesis using a b example_bad_rejected(1) by simp
qed

section \<open>Theorems: the ESTABLISH\_INTRO and INTRO\_ESTABLISHED codec\<close>

lemma byte_bit_high: "\<not> bit (b :: byte) (8 + n)"
  using bit_imp_le_length [of b "8 + n"] by auto

lemma uint16_be_hi: "(ucast (drop_bit 8 (get_uint16_be a b)) :: byte) = a"
  unfolding get_uint16_be_def
  by (rule bit_word_eqI) (auto simp add: bit_simps byte_bit_high)

lemma uint16_be_lo: "(ucast (get_uint16_be a b) :: byte) = b"
  unfolding get_uint16_be_def
  by (rule bit_word_eqI) (auto simp add: bit_simps)

lemma put_get_uint16_be: "put_uint16_be (get_uint16_be a b) = [a, b]"
  by (simp add: put_uint16_be_def uint16_be_hi uint16_be_lo)

lemma parse_sig_res:
  assumes "ptr \<le> length input" and "remaining = length input - ptr"
  shows "parse_epilogue (parse_sig T obj input ptr remaining) =
     (if length input < ptr + unat (sig_len obj) then Inr (- 2, None)
      else if \<not> dynarray_expand_ok T (unat (sig_len obj)) then Inr (- 1, None)
      else Inr (int (ptr + unat (sig_len obj)),
                Some (obj\<lparr>sig := take (unat (sig_len obj)) (drop ptr input)\<rparr>)))"
proof -
  have nn: "\<not> int ptr + uint (sig_len obj) < 0"
    using uint_ge_0 [of "sig_len obj"] by linarith
  show ?thesis
    using assms nn by (auto simp add: parse_sig_def parse_epilogue_def Let_def)
qed

lemma parse_sig_len_res:
  assumes "ptr \<le> length input" and "remaining = length input - ptr"
  shows "parse_epilogue (parse_sig_len T obj input ptr remaining) =
     (if length input < ptr + 2 then Inr (- 2, None)
      else parse_epilogue
             (parse_sig T
                (obj\<lparr>sig_len := get_uint16_be (input ! ptr) (input ! (ptr + 1)),
                     end_sig_fields := ptr + 2\<rparr>) input (ptr + 2) (length input - (ptr + 2))))"
  using assms by (auto simp add: parse_sig_len_def parse_epilogue_def Let_def)

lemma parse_handshake_mac_res:
  assumes "ptr \<le> length input" and "remaining = length input - ptr"
  shows "parse_epilogue (parse_handshake_mac T obj input ptr remaining) =
     (if length input < ptr + 32 then Inr (- 2, None)
      else parse_epilogue
             (parse_sig_len T (obj\<lparr>handshake_mac := take 32 (drop ptr input)\<rparr>) input
                (ptr + 32) (length input - (ptr + 32))))"
  using assms
  by (auto simp add: parse_handshake_mac_def parse_epilogue_def Let_def TRUNNEL_SHA3_256_LEN_def)

lemma parse_extensions_res:
  assumes "ptr \<le> length input" and "remaining = length input - ptr"
  shows "parse_epilogue (parse_extensions T obj input ptr remaining) =
     (if fst (cell_extension_parse T (drop ptr input)) < 0 then
        Inr (fst (cell_extension_parse T (drop ptr input)), None)
      else if \<not> nat (fst (cell_extension_parse T (drop ptr input))) \<le> length input - ptr then
        Inl AssertionFailed
      else parse_epilogue
             (parse_handshake_mac T
                (obj\<lparr>extensions := snd (cell_extension_parse T (drop ptr input)),
                     end_mac_data := ptr + nat (fst (cell_extension_parse T (drop ptr input)))\<rparr>)
                input
                (ptr + nat (fst (cell_extension_parse T (drop ptr input))))
                (length input - (ptr + nat (fst (cell_extension_parse T (drop ptr input)))))))"
  using assms
  by (auto simp add: parse_extensions_def parse_epilogue_def Let_def case_prod_beta)

lemma parse_auth_key_res:
  assumes "ptr \<le> length input" and "remaining = length input - ptr"
  shows "parse_epilogue (parse_auth_key T obj input ptr remaining) =
     (if length input < ptr + unat (auth_key_len obj) then Inr (- 2, None)
      else if \<not> dynarray_expand_ok T (unat (auth_key_len obj)) then Inr (- 1, None)
      else parse_epilogue
             (parse_extensions T
                (obj\<lparr>auth_key := take (unat (auth_key_len obj)) (drop ptr input)\<rparr>) input
                (ptr + unat (auth_key_len obj)) (length input - (ptr + unat (auth_key_len obj)))))"
  using assms by (auto simp add: parse_auth_key_def parse_epilogue_def Let_def)

lemma parse_auth_key_len_res:
  assumes "ptr \<le> length input" and "remaining = length input - ptr"
  shows "parse_epilogue (parse_auth_key_len T obj input ptr remaining) =
     (if length input < ptr + 2 then Inr (- 2, None)
      else parse_epilogue
             (parse_auth_key T
                (obj\<lparr>auth_key_len := get_uint16_be (input ! ptr) (input ! (ptr + 1))\<rparr>)
                input (ptr + 2) (length input - (ptr + 2))))"
  using assms by (auto simp add: parse_auth_key_len_def parse_epilogue_def Let_def)

lemma parse_auth_key_type_res:
  assumes "ptr \<le> length input" and "remaining = length input - ptr"
  shows "parse_epilogue (parse_auth_key_type T obj input ptr remaining) =
     (if length input < ptr + 1 then Inr (- 2, None)
      else if \<not> (input ! ptr = 0 \<or> input ! ptr = 1 \<or> input ! ptr = 2) then Inr (- 1, None)
      else parse_epilogue
             (parse_auth_key_len T (obj\<lparr>auth_key_type := input ! ptr\<rparr>)
                input (ptr + 1) (length input - (ptr + 1))))"
  using assms by (auto simp add: parse_auth_key_type_def parse_epilogue_def Let_def)

lemma parse_cases:
  fixes T :: "'e trunnel_ext" and input :: "byte list"
  assumes k_def: "k = unat (get_uint16_be (input ! 1) (input ! 2))"
    and r_def: "r = extensions_result T input"
    and after_def: "after = drop (3 + k + nat r) input"
    and s_def: "s = unat (get_uint16_be (after ! 32) (after ! 33))"
  shows "hs_cell_establish_intro_parse T input =
    (if \<not> trunnel_calloc_ok T then Inr (- 1, None)
     else if input = [] then Inr (- 2, None)
     else if tag_out_of_range input then Inr (- 1, None)
     else if length input < 3 \<or> length input < 3 + k then Inr (- 2, None)
     else if \<not> dynarray_expand_ok T k then Inr (- 1, None)
     else if r < 0 then Inr (r, None)
     else if \<not> nat r \<le> length input - (3 + k) then Inl AssertionFailed
     else if length after < 34 \<or> length after < 34 + s then Inr (- 2, None)
     else if \<not> dynarray_expand_ok T s then Inr (- 1, None)
     else Inr (int (3 + k + nat r + 34 + s),
            Some \<lparr>start_mac_data = 0, auth_key_type = hd input,
                  auth_key_len = get_uint16_be (input ! 1) (input ! 2),
                  auth_key = take k (drop 3 input),
                  extensions = snd (cell_extension_parse T (drop (3 + k) input)),
                  end_mac_data = 3 + k + nat r,
                  handshake_mac = take 32 after,
                  sig_len = get_uint16_be (after ! 32) (after ! 33),
                  end_sig_fields = 3 + k + nat r + 34,
                  sig = take s (drop 34 after),
                  trunnel_error_code = 0\<rparr>))"
    (is "?P = ?R")
proof (cases "trunnel_calloc_ok T")
  case False
  then show ?thesis by (simp add: hs_cell_establish_intro_parse_def)
next
  case calloc: True
  define o0 :: "'e hs_cell_establish_intro_t"
    where "o0 = hs_cell_establish_intro_new\<lparr>start_mac_data := 0\<rparr>"
  define o1 where "o1 = o0\<lparr>auth_key_type := hd input\<rparr>"
  define o2 where "o2 = o1\<lparr>auth_key_len := get_uint16_be (input ! 1) (input ! 2)\<rparr>"
  define o3 where "o3 = o2\<lparr>auth_key := take k (drop 3 input)\<rparr>"
  define o4 where "o4 = o3\<lparr>extensions := snd (cell_extension_parse T (drop (3 + k) input)),
                             end_mac_data := 3 + k + nat r\<rparr>"
  define o5 where "o5 = o4\<lparr>handshake_mac := take 32 after\<rparr>"
  define o6 where "o6 = o5\<lparr>sig_len := get_uint16_be (after ! 32) (after ! 33),
                             end_sig_fields := 3 + k + nat r + 34\<rparr>"
  have top: "?P = parse_epilogue (parse_auth_key_type T o0 input 0 (length input))"
    using calloc
    by (simp add: hs_cell_establish_intro_parse_def hs_cell_establish_intro_parse_into_def
        Let_def o0_def)
  note t1 = parse_auth_key_type_res [of 0 input "length input" T o0]
  show ?thesis
  proof (cases "input = []")
    case True
    have "?P = Inr (- 2, None)" unfolding top using t1 True by auto
    then show ?thesis using calloc True by simp
  next
    case ne: False
    then have hd0: "input ! 0 = hd input" by (simp add: hd_conv_nth)
    have l1: "1 \<le> length input" using ne by (cases input) simp_all
    show ?thesis
    proof (cases "tag_out_of_range input")
      case True
      have "?P = Inr (- 1, None)"
        unfolding top using t1 True ne by (auto simp add: tag_out_of_range_def hd0)
      then show ?thesis using calloc True ne by simp
    next
      case tag: False
      have s1: "?P = parse_epilogue (parse_auth_key_len T o1 input 1 (length input - 1))"
        unfolding top using t1 tag ne by (auto simp add: tag_out_of_range_def hd0 o1_def)
      note t2 = parse_auth_key_len_res [of 1 input "length input - 1" T o1, OF l1 refl]
      show ?thesis
      proof (cases "length input < 3")
        case True
        have "?P = Inr (- 2, None)" unfolding s1 using t2 True ne by auto
        then show ?thesis using calloc True ne tag by simp
      next
        case False
        then have l3: "3 \<le> length input" by simp
        have s2: "?P = parse_epilogue (parse_auth_key T o2 input 3 (length input - 3))"
          unfolding s1 using t2 l3 by (auto simp add: o2_def numeral_2_eq_2 numeral_3_eq_3)
        have k2: "unat (auth_key_len o2) = k" by (simp add: o2_def k_def)
        note t3 = parse_auth_key_res [of 3 input "length input - 3" T o2, OF l3 refl, unfolded k2]
        show ?thesis
        proof (cases "length input < 3 + k")
          case True
          have "?P = Inr (- 2, None)" unfolding s2 using t3 True l3 by auto
          then show ?thesis using calloc True ne tag by simp
        next
          case False
          then have lk: "3 + k \<le> length input" by simp
          show ?thesis
          proof (cases "dynarray_expand_ok T k")
            case False
            have "?P = Inr (- 1, None)" unfolding s2 using t3 False l3 lk by auto
            then show ?thesis using calloc False ne tag l3 lk by simp
          next
            case ek: True
            have s3: "?P = parse_epilogue
                (parse_extensions T o3 input (3 + k) (length input - (3 + k)))"
              unfolding s2 using t3 ek l3 lk by (auto simp add: o3_def)
            have rr: "fst (cell_extension_parse T (drop (3 + k) input)) = r"
              by (simp add: r_def extensions_result_def k_def)
            note t4 = parse_extensions_res [of "3 + k" input "length input - (3 + k)" T o3,
                OF lk refl, unfolded rr]
            show ?thesis
            proof (cases "r < 0")
              case True
              have "?P = Inr (r, None)" unfolding s3 using t4 True by auto
              then show ?thesis using calloc True ne tag l3 lk ek by simp
            next
              case rpos: False
              show ?thesis
              proof (cases "nat r \<le> length input - (3 + k)")
                case False
                have "?P = Inl AssertionFailed" unfolding s3 using t4 False rpos by auto
                then show ?thesis using calloc False rpos ne tag l3 lk ek by simp
              next
                case rle: True
                then have lr: "3 + k + nat r \<le> length input" using lk by simp
                have la: "length after = length input - (3 + k + nat r)"
                  by (simp add: after_def)
                have s4: "?P = parse_epilogue
                    (parse_handshake_mac T o4 input (3 + k + nat r)
                       (length input - (3 + k + nat r)))"
                  unfolding s3 using t4 rle rpos by (auto simp add: o4_def)
                note t5 = parse_handshake_mac_res [of "3 + k + nat r" input
                    "length input - (3 + k + nat r)" T o4, OF lr refl]
                show ?thesis
                proof (cases "length after < 34")
                  case True
                  have "?P = Inr (- 2, None)"
                  proof (cases "length after < 32")
                    case True
                    then show ?thesis unfolding s4 using t5 la lr by auto
                  next
                    case False
                    then have l32: "3 + k + nat r + 32 \<le> length input" using la lr by simp
                    have s5: "?P = parse_epilogue
                        (parse_sig_len T o5 input (3 + k + nat r + 32)
                           (length input - (3 + k + nat r + 32)))"
                      unfolding s4 using t5 l32 by (auto simp add: o5_def after_def)
                    show ?thesis
                      unfolding s5
                      using parse_sig_len_res [of "3 + k + nat r + 32" input
                          "length input - (3 + k + nat r + 32)" T o5, OF l32 refl] True la lr
                      by auto
                  qed
                  then show ?thesis using calloc True rle rpos ne tag l3 lk ek by simp
                next
                  case False
                  then have l34: "3 + k + nat r + 34 \<le> length input" using la lr by simp
                  then have l32: "3 + k + nat r + 32 \<le> length input" by simp
                  have s5: "?P = parse_epilogue
                      (parse_sig_len T o5 input (3 + k + nat r + 32)
                         (length input - (3 + k + nat r + 32)))"
                    unfolding s4 using t5 l32 by (auto simp add: o5_def after_def)
                  have a32: "after ! 32 = input ! (3 + k + nat r + 32)"
                    and a33: "after ! 33 = input ! (3 + k + nat r + 32 + 1)"
                    using lr by (simp_all add: after_def add.assoc)
                  have s6: "?P = parse_epilogue
                      (parse_sig T o6 input (3 + k + nat r + 34)
                         (length input - (3 + k + nat r + 34)))"
                    unfolding s5
                    using parse_sig_len_res [of "3 + k + nat r + 32" input
                        "length input - (3 + k + nat r + 32)" T o5, OF l32 refl] l34
                    by (auto simp add: o6_def a32 a33)
                  have s6': "unat (sig_len o6) = s" by (simp add: o6_def s_def)
                  note t7 = parse_sig_res [of "3 + k + nat r + 34" input
                      "length input - (3 + k + nat r + 34)" T o6, OF l34 refl, unfolded s6']
                  show ?thesis
                  proof (cases "length after < 34 + s")
                    case True
                    have "?P = Inr (- 2, None)" unfolding s6 using t7 True la lr by auto
                    then show ?thesis using calloc True rle rpos ne tag l3 lk ek by simp
                  next
                    case ls: False
                    show ?thesis
                    proof (cases "dynarray_expand_ok T s")
                      case False
                      have "?P = Inr (- 1, None)" unfolding s6 using t7 False ls la lr by auto
                      then show ?thesis
                        using calloc False ls \<open>\<not> length after < 34\<close> rle rpos ne tag l3 lk ek
                        by simp
                    next
                      case es: True
                      have fin: "?P = Inr (int (3 + k + nat r + 34 + s),
                          Some (o6\<lparr>sig := take s (drop (3 + k + nat r + 34) input)\<rparr>))"
                        unfolding s6 using t7 es ls la lr by auto
                      have obj: "o6\<lparr>sig := take s (drop (3 + k + nat r + 34) input)\<rparr> =
                          \<lparr>start_mac_data = 0, auth_key_type = hd input,
                            auth_key_len = get_uint16_be (input ! 1) (input ! 2),
                            auth_key = take k (drop 3 input),
                            extensions = snd (cell_extension_parse T (drop (3 + k) input)),
                            end_mac_data = 3 + k + nat r,
                            handshake_mac = take 32 after,
                            sig_len = get_uint16_be (after ! 32) (after ! 33),
                            end_sig_fields = 3 + k + nat r + 34,
                            sig = take s (drop 34 after),
                            trunnel_error_code = 0\<rparr>"
                        by (simp add: o6_def o5_def o4_def o3_def o2_def o1_def o0_def
                            hs_cell_establish_intro_new_def after_def add.commute)
                      show ?thesis
                        unfolding fin obj
                        using calloc es ls \<open>\<not> length after < 34\<close> rle rpos ne tag l3 lk ek
                        by simp
                    qed
                  qed
                qed
              qed
            qed
          qed
        qed
      qed
    qed
  qed
qed


lemma check_None:
  assumes "hs_cell_establish_intro_check T obj = None"
  shows "auth_key_type obj = 0 \<or> auth_key_type obj = 1 \<or> auth_key_type obj = 2"
    and "length (auth_key obj) = unat (auth_key_len obj)"
    and "length (sig obj) = unat (sig_len obj)"
  using assms
  by (auto simp add: hs_cell_establish_intro_check_def split: if_splits option.splits)

lemma encode_explicit:
  assumes chk: "hs_cell_establish_intro_check T obj = None"
    and enc: "cell_extension_encode T (avail - (3 + length (auth_key obj))) (extensions obj) =
                (int m, eb)"
    and room: "3 + length (auth_key obj) + m + 34 + length (sig obj) \<le> avail"
  shows "hs_cell_establish_intro_encode T avail obj =
     Inr (int (3 + length (auth_key obj) + m + 34 + length (sig obj)),
          auth_key_type obj # put_uint16_be (auth_key_len obj) @ auth_key obj @ eb @
          take 32 (handshake_mac obj) @ put_uint16_be (sig_len obj) @ sig obj)"
proof -
  note c = check_None [OF chk]
  have e1: "encode_sig avail obj out (3 + length (auth_key obj) + m + 34) =
      Inr (int (3 + length (auth_key obj) + m + 34 + length (sig obj)), out @ sig obj)" for out
    using room c(3) by (auto simp add: encode_sig_def Let_def)
  have e2: "encode_sig_len avail obj out (3 + length (auth_key obj) + m + 32) =
      Inr (int (3 + length (auth_key obj) + m + 34 + length (sig obj)),
           out @ put_uint16_be (sig_len obj) @ sig obj)" for out
    using room e1 [of "out @ put_uint16_be (sig_len obj)"]
    by (auto simp add: encode_sig_len_def add.assoc)
  have e3: "encode_handshake_mac avail obj out (3 + length (auth_key obj) + m) =
      Inr (int (3 + length (auth_key obj) + m + 34 + length (sig obj)),
           out @ take 32 (handshake_mac obj) @ put_uint16_be (sig_len obj) @ sig obj)" for out
    using room e2 [of "out @ take 32 (handshake_mac obj)"]
    by (auto simp add: encode_handshake_mac_def TRUNNEL_SHA3_256_LEN_def add.assoc)
  have e4: "encode_extensions T avail obj out (3 + length (auth_key obj)) =
      Inr (int (3 + length (auth_key obj) + m + 34 + length (sig obj)),
           out @ eb @ take 32 (handshake_mac obj) @ put_uint16_be (sig_len obj) @ sig obj)"
    for out
    using room enc e3 [of "out @ eb"] by (auto simp add: encode_extensions_def add.assoc)
  have e5: "encode_auth_key T avail obj out 3 =
      Inr (int (3 + length (auth_key obj) + m + 34 + length (sig obj)),
           out @ auth_key obj @ eb @ take 32 (handshake_mac obj) @
           put_uint16_be (sig_len obj) @ sig obj)" for out
    using room c(2) e4 [of "out @ auth_key obj"] by (auto simp add: encode_auth_key_def Let_def)
  have e6: "encode_auth_key_len T avail obj out 1 =
      Inr (int (3 + length (auth_key obj) + m + 34 + length (sig obj)),
           out @ put_uint16_be (auth_key_len obj) @ auth_key obj @ eb @
           take 32 (handshake_mac obj) @ put_uint16_be (sig_len obj) @ sig obj)" for out
    using room e5 [of "out @ put_uint16_be (auth_key_len obj)"]
    by (auto simp add: encode_auth_key_len_def numeral_3_eq_3)
  have e7: "encode_auth_key_type T avail obj [] 0 =
      Inr (int (3 + length (auth_key obj) + m + 34 + length (sig obj)),
           auth_key_type obj # put_uint16_be (auth_key_len obj) @ auth_key obj @ eb @
           take 32 (handshake_mac obj) @ put_uint16_be (sig_len obj) @ sig obj)"
    using room e6 [of "[auth_key_type obj]"] by (auto simp add: encode_auth_key_type_def)
  show ?thesis using chk e7 by (auto simp add: hs_cell_establish_intro_encode_def)
qed

lemma take3: "3 \<le> length xs \<Longrightarrow> take 3 xs = [hd xs, xs ! 1, xs ! 2]"
  by (cases xs; cases "tl xs"; cases "tl (tl xs)") (auto simp add: numeral_3_eq_3 numeral_2_eq_2)

lemma take34:
  assumes "34 \<le> length xs"
  shows "take 34 xs = take 32 xs @ [xs ! 32, xs ! 33]"
proof -
  have "take (32 + 2) xs = take 32 xs @ take 2 (drop 32 xs)" by (rule take_add)
  moreover have "take 2 (drop 32 xs) = [xs ! 32, xs ! 33]"
    using assms by (simp add: numeral_2_eq_2 take_Suc_conv_app_nth)
  ultimately show ?thesis by simp
qed

lemma consumed_bytes:
  fixes input :: "byte list"
  assumes "3 + k + m + 34 + s \<le> length input"
  shows "hd input # [input ! 1, input ! 2] @ take k (drop 3 input) @
         take m (drop (3 + k) input) @ take 32 (drop (3 + k + m) input) @
         [drop (3 + k + m) input ! 32, drop (3 + k + m) input ! 33] @
         take s (drop 34 (drop (3 + k + m) input)) =
         take (3 + k + m + 34 + s) input"
proof -
  have d1: "drop (3 + k) input = drop k (drop 3 input)"
    and d2: "drop (3 + k + m) input = drop m (drop k (drop 3 input))"
    by (simp_all add: add.commute add.left_commute)
  have n: "3 + k + m + 34 + s = 3 + (k + (m + (34 + s)))" by simp
  have b: "take 3 input = [hd input, input ! 1, input ! 2]"
    using assms by (simp add: take3)
  have c: "take 34 (drop m (drop k (drop 3 input))) =
      take 32 (drop m (drop k (drop 3 input))) @
      [drop m (drop k (drop 3 input)) ! 32, drop m (drop k (drop 3 input)) ! 33]"
    using assms by (intro take34) simp
  show ?thesis unfolding d1 d2 n take_add b c by simp
qed


lemma establish_intro_roundtrip:
  assumes rt: "cell_extension_roundtrip T"
    and p: "hs_cell_establish_intro_parse T input = Inr (n, Some obj)"
    and room: "nat n \<le> avail"
  shows "hs_cell_establish_intro_encode T avail obj = Inr (n, take (nat n) input)"
proof -
  define k where "k = unat (get_uint16_be (input ! 1) (input ! 2))"
  define r where "r = extensions_result T input"
  define after where "after = drop (3 + k + nat r) input"
  define s where "s = unat (get_uint16_be (after ! 32) (after ! 33))"
  note pc = parse_cases [OF k_def r_def after_def s_def]
  have rr: "fst (cell_extension_parse T (drop (3 + k) input)) = r"
    by (simp add: r_def extensions_result_def k_def)
  from p have ne: "input \<noteq> []" and tag: "\<not> tag_out_of_range input"
    and lk: "3 + k \<le> length input" and rpos: "0 \<le> r"
    and rle: "nat r \<le> length input - (3 + k)"
    and ls: "34 + s \<le> length after"
    and n: "n = int (3 + k + nat r + 34 + s)"
    and obj: "obj = \<lparr>start_mac_data = 0, auth_key_type = hd input,
                  auth_key_len = get_uint16_be (input ! 1) (input ! 2),
                  auth_key = take k (drop 3 input),
                  extensions = snd (cell_extension_parse T (drop (3 + k) input)),
                  end_mac_data = 3 + k + nat r,
                  handshake_mac = take 32 after,
                  sig_len = get_uint16_be (after ! 32) (after ! 33),
                  end_sig_fields = 3 + k + nat r + 34,
                  sig = take s (drop 34 after),
                  trunnel_error_code = 0\<rparr>"
    unfolding pc by (simp_all split: if_splits)
  have la: "length after = length input - (3 + k + nat r)" by (simp add: after_def)
  have nn: "nat n = 3 + k + nat r + 34 + s" by (simp only: n nat_int)
  have room2: "3 + k + nat r + 34 + s \<le> avail" using room nn by simp
  have total: "3 + k + nat r + 34 + s \<le> length input" using ls la lk rle by simp
  have ak: "length (auth_key obj) = k" using lk by (simp add: obj)
  have sg: "length (sig obj) = s" using ls by (simp add: obj)
  from rt rpos rr
  have xc: "cell_extension_check T (snd (cell_extension_parse T (drop (3 + k) input))) = None"
    and xe: "\<And>a. nat r \<le> a \<Longrightarrow>
        cell_extension_encode T a (snd (cell_extension_parse T (drop (3 + k) input))) =
          (r, take (nat r) (drop (3 + k) input))"
    unfolding cell_extension_roundtrip_def by (metis, metis)
  have chk: "hs_cell_establish_intro_check T obj = None"
    using tag ne lk ls xc
    by (simp add: hs_cell_establish_intro_check_def obj tag_out_of_range_def k_def s_def)
  have enc: "cell_extension_encode T (avail - (3 + length (auth_key obj))) (extensions obj) =
      (int (nat r), take (nat r) (drop (3 + k) input))"
  proof -
    have "nat r \<le> avail - (3 + k)" using room2 by simp
    from xe [OF this] show ?thesis using rpos by (simp add: ak) (simp add: obj)
  qed
  have room': "3 + length (auth_key obj) + nat r + 34 + length (sig obj) \<le> avail"
    using room2 by (simp add: ak sg)
  have "hs_cell_establish_intro_encode T avail obj =
      Inr (int (3 + k + nat r + 34 + s),
           hd input # [input ! 1, input ! 2] @ take k (drop 3 input) @
           take (nat r) (drop (3 + k) input) @ take 32 (drop (3 + k + nat r) input) @
           [drop (3 + k + nat r) input ! 32, drop (3 + k + nat r) input ! 33] @
           take s (drop 34 (drop (3 + k + nat r) input)))"
    unfolding encode_explicit [OF chk enc room'] ak sg
    by (simp add: obj put_get_uint16_be after_def)
  then show ?thesis
    unfolding consumed_bytes [OF total] nn by (simp only: n)
qed

lemma intro_established_roundtrip:
  assumes rt: "cell_extension_roundtrip T"
    and p: "hs_cell_intro_established_parse T input = Inr (n, Some obj)"
    and room: "nat n \<le> avail"
  shows "hs_cell_intro_established_encode T avail obj = Inr (n, take (nat n) input)"
proof -
  define r where "r = fst (cell_extension_parse T input)"
  define e where "e = snd (cell_extension_parse T input)"
  have pe: "cell_extension_parse T input = (r, e)" by (simp add: r_def e_def)
  from p have rpos: "0 \<le> r" and n: "n = r"
    and obj: "obj = hs_cell_intro_established_new\<lparr>ie_extensions := e\<rparr>"
    by (auto simp add: hs_cell_intro_established_parse_def
        hs_cell_intro_established_parse_into_def parse_epilogue_def Let_def pe
        split: if_splits)
  from rt rpos
  have xc: "cell_extension_check T e = None"
    and xe: "\<And>a. nat r \<le> a \<Longrightarrow> cell_extension_encode T a e = (r, take (nat r) input)"
    unfolding cell_extension_roundtrip_def r_def e_def by (metis, metis)
  show ?thesis
    using xc xe [of avail] room rpos
    by (simp add: hs_cell_intro_established_encode_def hs_cell_intro_established_check_def
        obj hs_cell_intro_established_new_def n)
qed


lemma example_roundtrip: "cell_extension_roundtrip example_trunnel_ext"
proof -
  have "example_cell_extension_check (snd (example_cell_extension_parse bs)) = None \<and>
        (\<forall>avail. nat (fst (example_cell_extension_parse bs)) \<le> avail \<longrightarrow>
           example_cell_extension_encode avail (snd (example_cell_extension_parse bs)) =
             (fst (example_cell_extension_parse bs),
              take (nat (fst (example_cell_extension_parse bs))) bs))"
    if "0 \<le> fst (example_cell_extension_parse bs)" for bs
  proof (cases bs)
    case Nil
    with that show ?thesis by (simp add: example_cell_extension_parse_def)
  next
    case (Cons n rest)
    have "unat n < 256" by (rule order_less_le_trans [OF unsigned_less]) simp
    then have b: "unat n \<le> 255" by simp
    from that Cons have l: "unat n \<le> length rest"
      by (simp add: example_cell_extension_parse_def split: if_splits)
    have "nat (1 + int (unat n)) = Suc (unat n)" by arith
    then have nu: "nat (1 + uint n) = Suc (unat n)" by simp
    show ?thesis
      using l b Cons
      by (auto simp add: example_cell_extension_parse_def example_cell_extension_check_def
          example_cell_extension_encode_def min_def nu)
  qed
  then show ?thesis
    by (simp add: cell_extension_roundtrip_def example_trunnel_ext_def)
qed

lemma example_bounded: "cell_extension_parse_bounded example_trunnel_ext"
proof -
  have "fst (example_cell_extension_parse bs) \<le> int (length bs)" for bs
  proof (cases bs)
    case Nil
    then show ?thesis by (simp add: example_cell_extension_parse_def)
  next
    case (Cons n rest)
    show ?thesis
    proof (cases "length rest < unat n")
      case True
      then show ?thesis by (simp add: example_cell_extension_parse_def Cons)
    next
      case False
      then have "int (unat n) \<le> int (length rest)" by (simp only: of_nat_le_iff not_less)
      then have "uint n \<le> int (length rest)" by simp
      with False show ?thesis by (simp add: example_cell_extension_parse_def Cons)
    qed
  qed
  then show ?thesis
    by (simp add: cell_extension_parse_bounded_def example_trunnel_ext_def)
qed

lemma example_u16: "get_uint16_be 0 1 = 1"
  by (simp add: get_uint16_be_def)

lemma example_cell_parse:
  "hs_cell_establish_intro_parse example_trunnel_ext (example_cell @ trail) =
     Inr (40, Some example_cell_obj)"
proof -
  define L where "L = 2 # 0 # 1 # 7 # 0 # replicate 32 170 @ 0 # 1 # 9 # trail"
  have i: "example_cell @ trail = L"
    by (simp add: example_cell_def L_def)
  have k: "unat (get_uint16_be (L ! 1) (L ! 2)) = 1"
    by (simp add: L_def example_u16)
  have r: "extensions_result example_trunnel_ext L = 1"
    unfolding extensions_result_def k
    by (simp add: L_def example_trunnel_ext_def example_cell_extension_parse_def)
  have e: "snd (cell_extension_parse example_trunnel_ext (drop (3 + 1) L)) = Some []"
    by (simp add: L_def example_trunnel_ext_def example_cell_extension_parse_def)
  have a: "drop (3 + 1 + nat 1) L = replicate 32 170 @ 0 # 1 # 9 # trail"
    by (simp add: L_def)
  have s: "unat (get_uint16_be ((replicate 32 170 @ 0 # 1 # 9 # trail) ! 32)
      ((replicate 32 170 @ 0 # 1 # 9 # trail) ! 33)) = 1"
    by (simp add: nth_append example_u16)
  show ?thesis
    unfolding i parse_cases [OF k [symmetric] r [symmetric] a [symmetric] s [symmetric]]
    by (simp add: example_cell_obj_def L_def example_trunnel_ext_def
        example_cell_extension_parse_def example_u16 nth_append tag_out_of_range_def)
qed


lemma establish_intro_consumed:
  assumes p: "hs_cell_establish_intro_parse T input = Inr (n, Some obj)"
  shows "0 \<le> n \<and> nat n \<le> length input"
proof -
  define k where "k = unat (get_uint16_be (input ! 1) (input ! 2))"
  define r where "r = extensions_result T input"
  define after where "after = drop (3 + k + nat r) input"
  define s where "s = unat (get_uint16_be (after ! 32) (after ! 33))"
  note pc = parse_cases [OF k_def r_def after_def s_def]
  from p have lk: "3 + k \<le> length input"
    and rle: "nat r \<le> length input - (3 + k)"
    and ls: "34 + s \<le> length after"
    and n: "n = int (3 + k + nat r + 34 + s)"
    unfolding pc by (simp_all split: if_splits)
  have la: "length after = length input - (3 + k + nat r)" by (simp add: after_def)
  have nn: "nat n = 3 + k + nat r + 34 + s" by (simp only: n nat_int)
  have "3 + k + nat r + 34 + s \<le> length input" using ls la lk rle by simp
  then show ?thesis unfolding nn by (simp only: n of_nat_0_le_iff simp_thms)
qed

lemma intro_established_consumed:
  assumes p: "hs_cell_intro_established_parse T input = Inr (n, Some obj)"
  shows "0 \<le> n \<and> nat n \<le> length input"
  using p
  by (auto simp add: hs_cell_intro_established_parse_def
      hs_cell_intro_established_parse_into_def parse_epilogue_def Let_def case_prod_beta
      split: if_splits)

text \<open>
  C3 (amended).  Both parsers accept an input that goes on after the cell and return the
  number \<open>n\<close> of bytes they have consumed.  Given an extension codec that round-trips,
  re-encoding the parsed structure into a buffer of at least \<open>n\<close> bytes reproduces these
  \<open>n\<close> bytes, the first \<open>n\<close> of the input; it reproduces the input when \<open>n\<close> is its length.
\<close>

theorem cell_codec_roundtrip_consumed:
  assumes "cell_extension_roundtrip T"
  shows "(hs_cell_establish_intro_parse T input = Inr (n, Some obj) \<and> nat n \<le> avail \<longrightarrow>
            0 \<le> n \<and> nat n \<le> length input \<and>
            hs_cell_establish_intro_encode T avail obj = Inr (n, take (nat n) input)) \<and>
         (hs_cell_intro_established_parse T input = Inr (n', Some obj') \<and> nat n' \<le> avail' \<longrightarrow>
            0 \<le> n' \<and> nat n' \<le> length input \<and>
            hs_cell_intro_established_encode T avail' obj' = Inr (n', take (nat n') input))"
  using assms establish_intro_roundtrip [of T input n obj avail]
    intro_established_roundtrip [of T input n' obj' avail']
    establish_intro_consumed [of T input n obj]
    intro_established_consumed [of T input n' obj']
  by blast

lemma example_intro_established_parse:
  "hs_cell_intro_established_parse example_trunnel_ext [0] =
     Inr (1, Some \<lparr>ie_extensions = Some [], ie_trunnel_error_code = 0\<rparr>)"
  by (simp add: hs_cell_intro_established_parse_def hs_cell_intro_established_parse_into_def
      parse_epilogue_def Let_def example_trunnel_ext_def example_cell_extension_parse_def
      hs_cell_intro_established_new_def)

lemma example_cell_length: "length example_cell = 40"
  by (simp add: example_cell_def)

theorem cell_codec_roundtrip_consumed_witness:
  "cell_extension_roundtrip example_trunnel_ext \<and>
   hs_cell_establish_intro_parse example_trunnel_ext example_cell =
     Inr (40, Some example_cell_obj) \<and>
   hs_cell_establish_intro_encode example_trunnel_ext 40 example_cell_obj =
     Inr (40, example_cell) \<and>
   hs_cell_intro_established_parse example_trunnel_ext [0] =
     Inr (1, Some \<lparr>ie_extensions = Some [], ie_trunnel_error_code = 0\<rparr>) \<and>
   hs_cell_intro_established_encode example_trunnel_ext 1
     \<lparr>ie_extensions = Some [], ie_trunnel_error_code = 0\<rparr> = Inr (1, [0])"
proof -
  have p: "hs_cell_establish_intro_parse example_trunnel_ext example_cell =
      Inr (40, Some example_cell_obj)"
    using example_cell_parse [of "[]"] by simp
  note q = example_intro_established_parse
  from cell_codec_roundtrip_consumed [OF example_roundtrip, of example_cell 40
      example_cell_obj 40 1 "\<lparr>ie_extensions = Some [], ie_trunnel_error_code = 0\<rparr>" 1]
  have "(hs_cell_establish_intro_parse example_trunnel_ext example_cell =
            Inr (40, Some example_cell_obj) \<longrightarrow>
          hs_cell_establish_intro_encode example_trunnel_ext 40 example_cell_obj =
            Inr (40, take 40 example_cell))"
    by simp
  with p have e: "hs_cell_establish_intro_encode example_trunnel_ext 40 example_cell_obj =
      Inr (40, example_cell)"
    by (simp add: example_cell_length)
  from cell_codec_roundtrip_consumed [OF example_roundtrip, of "[0]" 40
      example_cell_obj 0 1 "\<lparr>ie_extensions = Some [], ie_trunnel_error_code = 0\<rparr>" 1] q
  have f: "hs_cell_intro_established_encode example_trunnel_ext 1
      \<lparr>ie_extensions = Some [], ie_trunnel_error_code = 0\<rparr> = Inr (1, [0])"
    by simp
  show ?thesis using example_roundtrip p e q f by simp
qed

text \<open>
  C3 as stated fails: the example cell followed by one more byte is accepted, and what is
  re-encoded, into a buffer as long as the input, is the cell without that byte.
\<close>

theorem cell_codec_roundtrip_counterexample:
  "hs_cell_establish_intro_parse example_trunnel_ext (example_cell @ [255]) =
     Inr (40, Some example_cell_obj) \<and>
   hs_cell_establish_intro_encode example_trunnel_ext (length (example_cell @ [255]))
     example_cell_obj = Inr (40, example_cell) \<and>
   example_cell \<noteq> example_cell @ [255]"
proof -
  have p: "hs_cell_establish_intro_parse example_trunnel_ext (example_cell @ [255]) =
      Inr (40, Some example_cell_obj)"
    by (rule example_cell_parse)
  have "hs_cell_establish_intro_encode example_trunnel_ext 41 example_cell_obj =
      Inr (40, take (nat 40) (example_cell @ [255]))"
    by (rule establish_intro_roundtrip [OF example_roundtrip p]) simp
  then show ?thesis using p by (simp add: example_cell_length)
qed


lemma parse_failure_modes:
  assumes c: "trunnel_calloc_ok T" and d: "\<forall>n. dynarray_expand_ok T n"
    and b: "cell_extension_parse_bounded T"
  shows "tag_out_of_range input \<Longrightarrow> hs_cell_establish_intro_parse T input = Inr (- 1, None)"
    and "input_truncated T input \<Longrightarrow> hs_cell_establish_intro_parse T input = Inr (- 2, None)"
    and "hs_cell_establish_intro_parse T input = Inr (- 2, out) \<Longrightarrow> input_truncated T input"
    and "hs_cell_establish_intro_parse T input = Inr (- 1, out) \<Longrightarrow>
           tag_out_of_range input \<or> extensions_result T input = - 1"
proof -
  define k where "k = unat (get_uint16_be (input ! 1) (input ! 2))"
  define r where "r = extensions_result T input"
  define after where "after = drop (3 + k + nat r) input"
  define s where "s = unat (get_uint16_be (after ! 32) (after ! 33))"
  note pc = parse_cases [OF k_def r_def after_def s_def]
  have rb: "nat r \<le> length input - (3 + k)" if "0 \<le> r"
  proof -
    from b have "r \<le> int (length (drop (3 + k) input))"
      unfolding cell_extension_parse_bounded_def r_def extensions_result_def k_def by blast
    with that show ?thesis by simp
  qed
  have fi: "fields_incomplete T input \<longleftrightarrow>
      length input < 3 \<or> length input < 3 + k \<or> r = - 2 \<or>
      0 \<le> r \<and> (length after < 34 \<or> length after < 34 + s)"
    unfolding fields_incomplete_def Let_def TRUNNEL_SHA3_256_LEN_def s_def after_def r_def
      k_def
    by simp
  have e: "input = [] \<Longrightarrow> length input < 3" by simp
  show "hs_cell_establish_intro_parse T input = Inr (- 1, None)" if "tag_out_of_range input"
    unfolding pc using that c by (simp add: tag_out_of_range_def)
  show "hs_cell_establish_intro_parse T input = Inr (- 2, None)" if "input_truncated T input"
  proof -
    from that have f: "length input < 3 \<or> length input < 3 + k \<or> r = - 2 \<or>
        0 \<le> r \<and> (length after < 34 \<or> length after < 34 + s)"
      and t: "\<not> tag_out_of_range input"
      by (simp_all add: input_truncated_def fi)
    show ?thesis
      unfolding pc using f t c d rb by auto
  qed
  show "input_truncated T input" if "hs_cell_establish_intro_parse T input = Inr (- 2, out)"
    using that c d rb e unfolding pc input_truncated_def fi
    by (auto simp add: tag_out_of_range_def split: if_splits)
  show "tag_out_of_range input \<or> extensions_result T input = - 1"
    if "hs_cell_establish_intro_parse T input = Inr (- 1, out)"
    using that c d unfolding pc r_def [symmetric]
    by (auto split: if_splits)
qed

text \<open>
  C4 (amended).  The tag is checked as soon as it is read: an input whose tag is outside
  \<open>{0,1,2}\<close> gets -1 whether or not its fields are complete.  An input that ends before
  its declared fields are complete, and whose tag is not out of range, gets -2.  Allocation
  failures apart, -2 is returned for no other input, and -1 only for a tag out of range or
  when the extension parser returns -1.
\<close>

theorem hs_cell_establish_intro_parse_failure_codes:
  assumes "trunnel_calloc_ok T" and "\<forall>n. dynarray_expand_ok T n"
    and "cell_extension_parse_bounded T"
  shows "(tag_out_of_range input \<longrightarrow>
            hs_cell_establish_intro_parse T input = Inr (- 1, None)) \<and>
         (input_truncated T input \<longrightarrow>
            hs_cell_establish_intro_parse T input = Inr (- 2, None)) \<and>
         (\<forall>out. hs_cell_establish_intro_parse T input = Inr (- 2, out) \<longrightarrow>
            input_truncated T input) \<and>
         (\<forall>out. hs_cell_establish_intro_parse T input = Inr (- 1, out) \<longrightarrow>
            tag_out_of_range input \<or> extensions_result T input = - 1)"
  using parse_failure_modes [OF assms, of input] by blast

lemma example_alloc:
  "trunnel_calloc_ok example_trunnel_ext" "\<forall>n. dynarray_expand_ok example_trunnel_ext n"
  by (simp_all add: example_trunnel_ext_def)

lemma example_truncated: "input_truncated example_trunnel_ext (take 10 example_cell)"
proof -
  have i: "take 10 example_cell = [2, 0, 1, 7, 0, 170, 170, 170, 170, 170]"
    by (simp add: example_cell_def eval_nat_numeral)
  have x: "extensions_result example_trunnel_ext [2, 0, 1, 7, 0, 170, 170, 170, 170, 170] = 1"
    by (simp add: extensions_result_def example_u16 example_trunnel_ext_def
        example_cell_extension_parse_def)
  show ?thesis
    unfolding i input_truncated_def fields_incomplete_def x
    by (simp add: example_u16 tag_out_of_range_def TRUNNEL_SHA3_256_LEN_def)
qed

theorem hs_cell_establish_intro_parse_failure_codes_witness:
  "tag_out_of_range [5] \<and>
   hs_cell_establish_intro_parse example_trunnel_ext [5] = Inr (- 1, None) \<and>
   input_truncated example_trunnel_ext (take 10 example_cell) \<and>
   hs_cell_establish_intro_parse example_trunnel_ext (take 10 example_cell) =
     Inr (- 2, None)"
proof -
  have t: "tag_out_of_range [5]" by (simp add: tag_out_of_range_def)
  from hs_cell_establish_intro_parse_failure_codes [OF example_alloc example_bounded, of "[5]"] t
  have a: "hs_cell_establish_intro_parse example_trunnel_ext [5] = Inr (- 1, None)"
    by blast
  from hs_cell_establish_intro_parse_failure_codes [OF example_alloc example_bounded,
      of "take 10 example_cell"] example_truncated
  have b: "hs_cell_establish_intro_parse example_trunnel_ext (take 10 example_cell) =
      Inr (- 2, None)"
    by blast
  show ?thesis using t a b example_truncated by simp
qed

text \<open>
  C4 as stated fails: the one-byte input \<open>[5]\<close> ends before its fields are complete, and
  the parser returns -1 for it, not -2.
\<close>

theorem hs_cell_establish_intro_parse_failure_codes_counterexample:
  "fields_incomplete example_trunnel_ext [5] \<and>
   hs_cell_establish_intro_parse example_trunnel_ext [5] = Inr (- 1, None)"
proof -
  have "tag_out_of_range [5]" by (simp add: tag_out_of_range_def)
  then have "hs_cell_establish_intro_parse example_trunnel_ext [5] = Inr (- 1, None)"
    by (rule parse_failure_modes (1) [OF example_alloc example_bounded])
  then show ?thesis by (simp add: fields_incomplete_def)
qed

section \<open>Theorems: the intro circuits of a service\<close>
























text \<open>
  C8 (what the code does).  \<open>hs_circ_handle_introduce2\<close> neither reads nor writes the
  replay cache of the intro point, and does not compare the counter with
  \<open>introduce2_max\<close>: a payload that \<open>hs_cell_parse_introduce2\<close> accepts increments
  \<open>introduce2_count\<close> each time it is handled, so handling the same accepted payload twice
  on the same intro point returns 0 both times, adds 2 to the counter and leaves the
  replay cache as it was.
\<close>

theorem hs_circ_handle_introduce2_twice:
  "hs_circ_handle_introduce2 H service circ
     (snd (hs_circ_handle_introduce2 H service circ ip subcredential payload))
     subcredential payload =
     (if fst (hs_cell_parse_introduce2 H (introduce2_data ip subcredential payload)
                circ service) < 0
      then (- 1, ip)
      else (0, ip\<lparr>introduce2_count := introduce2_count ip + 2\<rparr>))"
  by (simp add: hs_circ_handle_introduce2_def introduce2_data_def
      hs_circ_launch_rendezvous_point_def Let_def case_prod_beta)

theorem hs_circ_handle_introduce2_twice_witness:
  "hs_circ_handle_introduce2 example_hs_ext example_service
     (example_circuit CIRCUIT_STATE_OPEN) (example_ip 10) [5] [7, 7, 7] =
     (0, (example_ip 10)\<lparr>introduce2_count := 1\<rparr>) \<and>
   hs_circ_handle_introduce2 example_hs_ext example_service
     (example_circuit CIRCUIT_STATE_OPEN) ((example_ip 10)\<lparr>introduce2_count := 1\<rparr>)
     [5] [7, 7, 7] =
     (0, (example_ip 10)\<lparr>introduce2_count := 2, replay_cache := []\<rparr>)"
proof -
  have a: "hs_circ_handle_introduce2 example_hs_ext example_service
     (example_circuit CIRCUIT_STATE_OPEN) (example_ip 10) [5] [7, 7, 7] =
     (0, (example_ip 10)\<lparr>introduce2_count := 1\<rparr>)"
    by (simp add: hs_circ_handle_introduce2_def introduce2_data_def example_hs_ext_def
        hs_circ_launch_rendezvous_point_def Let_def example_ip_def)
  have p: "\<not> fst (hs_cell_parse_introduce2 example_hs_ext
      (introduce2_data (example_ip 10) [5] [7, 7, 7]) (example_circuit CIRCUIT_STATE_OPEN)
      example_service) < 0"
    by (simp add: introduce2_data_def example_hs_ext_def)
  from hs_circ_handle_introduce2_twice [of example_hs_ext example_service
      "example_circuit CIRCUIT_STATE_OPEN" "example_ip 10" "[5]" "[7, 7, 7]"]
  have "hs_circ_handle_introduce2 example_hs_ext example_service
     (example_circuit CIRCUIT_STATE_OPEN) ((example_ip 10)\<lparr>introduce2_count := 1\<rparr>)
     [5] [7, 7, 7] =
     (0, (example_ip 10)\<lparr>introduce2_count := introduce2_count (example_ip 10) + 2\<rparr>)"
    unfolding a by (simp add: p)
  then show ?thesis using a by (simp add: example_ip_def)
qed

end
